theory Spec2Isabelle
  imports Main "HOL-Library.Multiset" "HOL-Library.AList"
begin

section \<open>Data model\<close>

text \<open>
  Go's \<open>error\<close> interface. The code distinguishes API errors by kind
  (\<open>apierrors.IsNotFound\<close>, and \<open>retry.RetryOnConflict\<close> by \<open>IsConflict\<close>);
  every other error, including those built by \<open>fmt.Errorf\<close>, only carries its text.
\<close>

datatype error = NotFound string | Conflict string | Error string

fun IsNotFound :: "error \<Rightarrow> bool" where
  "IsNotFound (NotFound m) = True"
| "IsNotFound (Conflict m) = False"
| "IsNotFound (Error m) = False"

fun IsConflict :: "error \<Rightarrow> bool" where
  "IsConflict (NotFound m) = False"
| "IsConflict (Conflict m) = True"
| "IsConflict (Error m) = False"

text \<open>\<open>err.Error()\<close>: the text of an error.\<close>

fun ErrorText :: "error \<Rightarrow> string" where
  "ErrorText (NotFound m) = m"
| "ErrorText (Conflict m) = m"
| "ErrorText (Error m) = m"

text \<open>A panic unwinds through every caller; it is kept apart from returned errors.\<close>

datatype 'a outcome = Panicked | Returned 'a

text \<open>\<open>corev1.ObjectReference\<close>.\<close>

record ObjectReference =
  Kind :: string
  Namespace :: string
  Name :: string
  UID :: string
  APIVersion :: string
  ResourceVersion :: string
  FieldPath :: string

datatype ClusterType = ClusterTypeCapi | ClusterTypeSveltos

datatype SveltosFeatureStatus =
    SveltosStatusProvisioning
  | SveltosStatusProvisioned
  | SveltosStatusFailed
  | SveltosStatusRemoving
  | SveltosStatusRemoved

text \<open>
  \<open>libsveltosv1beta1.ClusterInfo\<close>. \<open>Hash\<close> is a \<open>[]byte\<close>: \<open>None\<close> is the nil
  slice. \<open>FailureMessage\<close> is a \<open>*string\<close>: \<open>None\<close> is the nil pointer.
\<close>

record ClusterInfo =
  Cluster :: ObjectReference
  Hash :: "string option"
  Status :: SveltosFeatureStatus
  FailureMessage :: "string option"

text \<open>
  \<open>EventTriggerSpec\<close>. The functions modelled here read \<open>OneForEvent\<close> and
  \<open>EventSourceName\<close>; the remaining fields (selectors, sync mode, tier, charts,
  policy references, ...) are only rendered or copied as a whole and are kept together
  in \<open>OtherSpecFields\<close>.
\<close>

record EventTriggerSpec =
  OneForEvent :: bool
  EventSourceName :: string
  OtherSpecFields :: string

record EventTriggerStatus =
  MatchingClusterRefs :: "ObjectReference list"
  DestinationMatchingClusterRefs :: "ObjectReference list"
  StatusClusterInfo :: "ClusterInfo list"

text \<open>
  \<open>EventTrigger\<close> with the metadata the code reads: its name, its labels, its
  annotations and whether \<open>DeletionTimestamp\<close> is set (\<open>TriggerDeleting\<close> is
  \<open>!DeletionTimestamp.IsZero()\<close>). A Go map is a finite map here: it has no order
  of insertion, and a nil map is not told apart from an empty one.
\<close>

record EventTrigger =
  TriggerName :: string
  TriggerLabels :: "string \<rightharpoonup> string"
  TriggerAnnotations :: "string \<rightharpoonup> string"
  TriggerDeleting :: bool
  Spec :: EventTriggerSpec
  TriggerStatus :: EventTriggerStatus

text \<open>The objects \<open>eventTriggerHash\<close> receives from \<open>fetchReferencedResources\<close>.\<close>

record ConfigMap =
  cmNamespace :: string
  cmName :: string
  cmLabels :: "string \<rightharpoonup> string"
  cmData :: "string \<rightharpoonup> string"

record Secret =
  secNamespace :: string
  secName :: string
  secLabels :: "string \<rightharpoonup> string"
  secData :: "string \<rightharpoonup> string"

record EventSourceSpec =
  CollectResources :: bool
  ResourceSelectors :: string

record OwnerReference =
  ownerKind :: string
  ownerName :: string

record EventSource =
  esName :: string
  esOwnerReferences :: "OwnerReference list"
  esSpec :: EventSourceSpec

record EventReportSpec =
  erClusterNamespace :: string
  erClusterName :: string
  erClusterType :: ClusterType
  erEventSourceName :: string
  MatchingResources :: "ObjectReference list"
  Resources :: string

record EventReport =
  erNamespace :: string
  erName :: string
  erLabels :: "string \<rightharpoonup> string"
  erDeleting :: bool
  erSpec :: EventReportSpec

datatype ReferencedObject =
    ConfigMapObject ConfigMap
  | SecretObject Secret
  | EventSourceObject EventSource
  | EventReportObject EventReport
  | OtherObject string

text \<open>\<open>deployer.Result\<close> and the handlers the code hands to the dispatcher.\<close>

datatype ResultStatus = Deployed | Failed | InProgress | Removed | Unavailable

record Result =
  ResultStatus :: ResultStatus
  Err :: "error option"

datatype RequestHandler =
    processEventTriggerForCluster
  | undeployEventTriggerResourcesFromCluster

text \<open>
  The arguments that identify a dispatcher entry:
  \<open>(clusterNamespace, clusterName, applicant, featureID, clusterType, cleanup)\<close>.
\<close>

record DeployKey =
  keyClusterNamespace :: string
  keyClusterName :: string
  keyApplicant :: string
  keyFeatureID :: string
  keyClusterType :: ClusterType
  keyCleanup :: bool

record feature =
  featureId :: string

section \<open>The reconciler's collaborators\<close>

text \<open>
  Everything the reconciler reaches through an interface or a library of another
  repository is a field of this record. Reads of the management cluster (the cluster
  objects, the referenced resources) are functions of what is asked for: one reconcile
  pass does not write those objects. The dispatcher (\<open>r.Deployer\<close>) and the stored
  EventTrigger (\<open>c.Get\<close>, \<open>c.Status().Update\<close>) are stateful: their operations read and
  transform a state \<open>'w\<close>. The type \<open>'c\<close> is the cluster object \<open>GetCluster\<close> returns.
\<close>

record ('c, 'w) Reconciler =
  ShardKey :: string
  GetCluster :: "string \<Rightarrow> string \<Rightarrow> ClusterType \<Rightarrow> error + 'c"
  IsShardAMatch :: "string \<Rightarrow> 'c \<Rightarrow> bool"
  GetClusterType :: "ObjectReference \<Rightarrow> ClusterType"
  IsClusterPaused :: "string \<Rightarrow> string \<Rightarrow> ClusterType \<Rightarrow> error + bool"
  IsClusterReadyToBeConfigured :: "ObjectReference \<Rightarrow> error + bool"
  fetchReferencedResources :: "EventTrigger \<Rightarrow> ObjectReference \<Rightarrow> error + ReferencedObject list"
  renderSpec :: "EventTriggerSpec \<Rightarrow> string"
  renderStringMap :: "(string \<rightharpoonup> string) \<Rightarrow> string"
  renderBytesMap :: "(string \<rightharpoonup> string) \<Rightarrow> string"
  renderEventSourceSpec :: "EventSourceSpec \<Rightarrow> string"
  renderEventReportSpec :: "EventReportSpec \<Rightarrow> string"
  sha256 :: "string \<Rightarrow> string"
  CleanupEntries :: "DeployKey \<Rightarrow> 'w \<Rightarrow> 'w"
  IsInProgress :: "DeployKey \<Rightarrow> 'w \<Rightarrow> bool"
  GetResult :: "DeployKey \<Rightarrow> 'w \<Rightarrow> Result"
  Deploy :: "DeployKey \<Rightarrow> RequestHandler \<Rightarrow> 'w \<Rightarrow> error option \<times> 'w"
  GetEventTrigger :: "string \<Rightarrow> 'w \<Rightarrow> error + EventTrigger"
  StatusUpdate :: "EventTrigger \<Rightarrow> 'w \<Rightarrow> error option \<times> 'w"

section \<open>Fingerprint\<close>

text \<open>
  The loop of \<open>eventTriggerHash\<close> over the fetched resources: each one appends the
  rendering of its body; any other kind of object panics.
\<close>

fun renderResources :: "('c, 'w) Reconciler \<Rightarrow> ReferencedObject list \<Rightarrow> string \<Rightarrow> string outcome" where
  "renderResources r [] config = Returned config"
| "renderResources r (ConfigMapObject cm # rs) config =
     renderResources r rs (config @ renderStringMap r (cmData cm))"
| "renderResources r (SecretObject s # rs) config =
     renderResources r rs (config @ renderBytesMap r (secData s))"
| "renderResources r (EventSourceObject es # rs) config =
     renderResources r rs (config @ renderEventSourceSpec r (esSpec es))"
| "renderResources r (EventReportObject er # rs) config =
     renderResources r rs (config @ renderEventReportSpec r (erSpec er))"
| "renderResources r (OtherObject k # rs) config = Panicked"

definition eventTriggerHash ::
  "('c, 'w) Reconciler \<Rightarrow> EventTrigger \<Rightarrow> ObjectReference \<Rightarrow> (error + string) outcome" where
  "eventTriggerHash r e cluster =
     (case fetchReferencedResources r e cluster of
        Inl err \<Rightarrow> Returned (Inl err)
      | Inr resources \<Rightarrow>
          (case renderResources r resources (renderSpec r (Spec e) @ renderStringMap r (TriggerLabels e)) of
             Panicked \<Rightarrow> Panicked
           | Returned config \<Rightarrow> Returned (Inr (sha256 r config))))"

section \<open>The per-cluster state machine\<close>

definition isClusterAShardMatch :: "('c, 'w) Reconciler \<Rightarrow> ClusterInfo \<Rightarrow> error + bool" where
  "isClusterAShardMatch r clusterInfo =
     (let clusterType = GetClusterType r (Cluster clusterInfo) in
      case GetCluster r (Namespace (Cluster clusterInfo)) (Name (Cluster clusterInfo)) clusterType of
        Inl err \<Rightarrow> (if IsNotFound err then Inr True else Inl err)
      | Inr cluster \<Rightarrow> Inr (IsShardAMatch r (ShardKey r) cluster))"

fun convertResultStatus :: "Result \<Rightarrow> SveltosFeatureStatus option" where
  "convertResultStatus result =
     (case ResultStatus result of
        Deployed \<Rightarrow> Some SveltosStatusProvisioned
      | Failed \<Rightarrow> Some SveltosStatusFailed
      | InProgress \<Rightarrow> Some SveltosStatusProvisioning
      | Removed \<Rightarrow> Some SveltosStatusRemoved
      | Unavailable \<Rightarrow> None)"

definition isClusterInfoForCluster ::
  "('c, 'w) Reconciler \<Rightarrow> ClusterInfo \<Rightarrow> string \<Rightarrow> string \<Rightarrow> ClusterType \<Rightarrow> bool" where
  "isClusterInfoForCluster r clusterInfo clusterNamespace clusterName clusterType \<longleftrightarrow>
     Namespace (Cluster clusterInfo) = clusterNamespace \<and>
     Name (Cluster clusterInfo) = clusterName \<and>
     GetClusterType r (Cluster clusterInfo) = clusterType"

text \<open>
  \<open>getClusterHashAndStatus\<close>: hash and status of the first entry for the cluster, a
  pair of nils when there is none.
\<close>

fun findClusterHashAndStatus ::
  "('c, 'w) Reconciler \<Rightarrow> ClusterInfo list \<Rightarrow> ObjectReference \<Rightarrow> string option \<times> SveltosFeatureStatus option" where
  "findClusterHashAndStatus r [] cluster = (None, None)"
| "findClusterHashAndStatus r (clusterInfo # rest) cluster =
     (if isClusterInfoForCluster r clusterInfo (Namespace cluster) (Name cluster) (GetClusterType r cluster)
      then (Hash clusterInfo, Some (Status clusterInfo))
      else findClusterHashAndStatus r rest cluster)"

definition getClusterHashAndStatus ::
  "('c, 'w) Reconciler \<Rightarrow> EventTrigger \<Rightarrow> ObjectReference \<Rightarrow> string option \<times> SveltosFeatureStatus option" where
  "getClusterHashAndStatus r resource cluster =
     findClusterHashAndStatus r (StatusClusterInfo (TriggerStatus resource)) cluster"

definition isClusterEntryRemoved :: "('c, 'w) Reconciler \<Rightarrow> EventTrigger \<Rightarrow> ObjectReference \<Rightarrow> bool" where
  "isClusterEntryRemoved r resource cluster \<longleftrightarrow>
     \<not> list_ex (\<lambda>cc. isClusterInfoForCluster r cc (Namespace cluster) (Name cluster) (GetClusterType r cluster))
         (StatusClusterInfo (TriggerStatus resource))"

text \<open>
  \<open>annotations.HasPaused\<close> (cluster-api): the object carries the paused annotation,
  whatever its value.
\<close>

definition HasPaused :: "EventTrigger \<Rightarrow> bool" where
  "HasPaused resource \<longleftrightarrow> TriggerAnnotations resource ''cluster.x-k8s.io/paused'' \<noteq> None"

definition isPaused :: "('c, 'w) Reconciler \<Rightarrow> ObjectReference \<Rightarrow> EventTrigger \<Rightarrow> error + bool" where
  "isPaused r cluster resource =
     (case IsClusterPaused r (Namespace cluster) (Name cluster) (GetClusterType r cluster) of
        Inl err \<Rightarrow> (if IsNotFound err then Inr False else Inl err)
      | Inr isClusterPaused \<Rightarrow> (if isClusterPaused then Inr True else Inr (HasPaused resource)))"

definition canProceed :: "('c, 'w) Reconciler \<Rightarrow> EventTrigger \<Rightarrow> ObjectReference \<Rightarrow> error + bool" where
  "canProceed r resource cluster =
     (case isPaused r cluster resource of
        Inl err \<Rightarrow> Inl err
      | Inr paused \<Rightarrow>
          (if paused then Inr False
           else (case IsClusterReadyToBeConfigured r cluster of
                   Inl err \<Rightarrow> Inl err
                 | Inr ready \<Rightarrow> (if \<not> ready then Inr False else Inr True))))"

definition isClusterStillMatching :: "EventTrigger \<Rightarrow> ObjectReference \<Rightarrow> bool" where
  "isClusterStillMatching resource cluster \<longleftrightarrow>
     list_ex (\<lambda>matchingCluster. matchingCluster = cluster) (MatchingClusterRefs (TriggerStatus resource))"

subsection \<open>Removing a ClusterInfo entry from the stored status\<close>

text \<open>
  \<open>remove(s, i)\<close> overwrites slot \<open>i\<close> with the last element and drops the last slot.
  The only caller passes an index inside the slice; outside it Go panics.
\<close>

definition remove :: "ClusterInfo list \<Rightarrow> nat \<Rightarrow> ClusterInfo list outcome" where
  "remove s i = (if i < length s then Returned (butlast (s[i := last s])) else Panicked)"

text \<open>The index of the first entry for the cluster, as the loop finds it.\<close>

fun firstClusterInfoIndex ::
  "('c, 'w) Reconciler \<Rightarrow> ClusterInfo list \<Rightarrow> string \<Rightarrow> string \<Rightarrow> ClusterType \<Rightarrow> nat \<Rightarrow> nat option" where
  "firstClusterInfoIndex r [] clusterNamespace clusterName clusterType i = None"
| "firstClusterInfoIndex r (cc # rest) clusterNamespace clusterName clusterType i =
     (if isClusterInfoForCluster r cc clusterNamespace clusterName clusterType then Some i
      else firstClusterInfoIndex r rest clusterNamespace clusterName clusterType (Suc i))"

text \<open>The function \<open>removeClusterInfoEntry\<close> hands to \<open>retry.RetryOnConflict\<close>.\<close>

definition removeClusterInfoEntryAttempt ::
  "('c, 'w) Reconciler \<Rightarrow> string \<Rightarrow> string \<Rightarrow> ClusterType \<Rightarrow> EventTrigger \<Rightarrow> 'w \<Rightarrow> (error option \<times> 'w) outcome" where
  "removeClusterInfoEntryAttempt r clusterNamespace clusterName clusterType resource w =
     (case GetEventTrigger r (TriggerName resource) w of
        Inl err \<Rightarrow> Returned (Some err, w)
      | Inr currentResource \<Rightarrow>
          (let clusterInfos = StatusClusterInfo (TriggerStatus currentResource) in
           case firstClusterInfoIndex r clusterInfos clusterNamespace clusterName clusterType 0 of
             None \<Rightarrow> Returned (None, w)
           | Some i \<Rightarrow>
               (case remove clusterInfos i of
                  Panicked \<Rightarrow> Panicked
                | Returned clusterInfos' \<Rightarrow>
                    Returned (StatusUpdate r
                      (currentResource\<lparr>TriggerStatus :=
                         (TriggerStatus currentResource)\<lparr>StatusClusterInfo := clusterInfos'\<rparr>\<rparr>) w))))"

text \<open>
  \<open>retry.RetryOnConflict\<close> (client-go): the function is called again as long as it
  returns a conflict, at most \<open>steps\<close> times in all; the last conflict is returned when
  the steps are used up (with no step at all the function is never called and there is no
  error to return). \<open>retry.DefaultRetry\<close> has five steps.
\<close>

fun RetryOnConflict :: "nat \<Rightarrow> ('w \<Rightarrow> (error option \<times> 'w) outcome) \<Rightarrow> 'w \<Rightarrow> (error option \<times> 'w) outcome" where
  "RetryOnConflict 0 fn w = Returned (None, w)"
| "RetryOnConflict (Suc n) fn w =
     (case fn w of
        Panicked \<Rightarrow> Panicked
      | Returned (None, w') \<Rightarrow> Returned (None, w')
      | Returned (Some err, w') \<Rightarrow>
          (if IsConflict err \<and> n \<noteq> 0 then RetryOnConflict n fn w' else Returned (Some err, w')))"

definition DefaultRetrySteps :: nat where
  "DefaultRetrySteps = 5"

definition removeClusterInfoEntry ::
  "('c, 'w) Reconciler \<Rightarrow> string \<Rightarrow> string \<Rightarrow> ClusterType \<Rightarrow> EventTrigger \<Rightarrow> 'w \<Rightarrow> (error option \<times> 'w) outcome" where
  "removeClusterInfoEntry r clusterNamespace clusterName clusterType resource w =
     RetryOnConflict DefaultRetrySteps
       (removeClusterInfoEntryAttempt r clusterNamespace clusterName clusterType resource) w"

subsection \<open>Unmatch path and deploy path\<close>

definition deployKey ::
  "('c, 'w) Reconciler \<Rightarrow> EventTrigger \<Rightarrow> ObjectReference \<Rightarrow> feature \<Rightarrow> bool \<Rightarrow> DeployKey" where
  "deployKey r resource cluster f cleanup =
     \<lparr>keyClusterNamespace = Namespace cluster, keyClusterName = Name cluster,
      keyApplicant = TriggerName resource, keyFeatureID = featureId f,
      keyClusterType = GetClusterType r cluster, keyCleanup = cleanup\<rparr>"

text \<open>
  Both functions return Go's pair \<open>(*ClusterInfo, error)\<close>, either of which may be nil,
  together with the state they leave behind.
\<close>

definition removeEventTrigger ::
  "('c, 'w) Reconciler \<Rightarrow> EventTrigger \<Rightarrow> ObjectReference \<Rightarrow> feature \<Rightarrow> 'w \<Rightarrow>
     ((ClusterInfo option \<times> error option) \<times> 'w) outcome" where
  "removeEventTrigger r resource cluster f w =
     (let w1 = CleanupEntries r (deployKey r resource cluster f False) w in
      if IsInProgress r (deployKey r resource cluster f False) w1
      then Returned ((None, Some (Error (''deploying '' @ featureId f @ '' still in progress. Wait before cleanup''))), w1)
      else if isClusterEntryRemoved r resource cluster
      then Returned ((None, None), w1)
      else
        (let result = GetResult r (deployKey r resource cluster f True) w1;
             status = convertResultStatus result;
             clusterInfo = \<lparr>Cluster = cluster, Hash = None, Status = SveltosStatusRemoving,
                            FailureMessage = None\<rparr>
         in
         if status = Some SveltosStatusRemoving
         then Returned ((Some clusterInfo, Some (Error ''feature is still being removed'')), w1)
         else if status = Some SveltosStatusRemoved
         then (case removeClusterInfoEntry r (Namespace cluster) (Name cluster)
                      (GetClusterType r cluster) resource w1 of
                 Panicked \<Rightarrow> Panicked
               | Returned (Some err, w2) \<Rightarrow> Returned ((None, Some err), w2)
               | Returned (None, w2) \<Rightarrow>
                   Returned ((Some (clusterInfo\<lparr>Status := SveltosStatusRemoved\<rparr>), None), w2))
         else (case Deploy r (deployKey r resource cluster f True)
                      undeployEventTriggerResourcesFromCluster w1 of
                 (Some err, w2) \<Rightarrow> Returned ((None, Some err), w2)
               | (None, w2) \<Rightarrow>
                   Returned ((Some clusterInfo, Some (Error ''cleanup request is queued'')), w2))))"

text \<open>
  The tail of \<open>processEventTrigger\<close>, reached by every path that does not return
  earlier: a ClusterInfo with the chosen status, the current hash and no failure message,
  and no error.
\<close>

definition processEventTriggerTail ::
  "ObjectReference \<Rightarrow> string \<Rightarrow> SveltosFeatureStatus \<Rightarrow> 'w \<Rightarrow>
     ((ClusterInfo option \<times> error option) \<times> 'w) outcome" where
  "processEventTriggerTail cluster currentHash status w =
     Returned ((Some \<lparr>Cluster = cluster, Hash = Some currentHash, Status = status,
                      FailureMessage = None\<rparr>, None), w)"

text \<open>
  The part of \<open>processEventTrigger\<close> after the hash is computed and \<open>canProceed\<close> said
  yes. \<open>reflect.DeepEqual(hash, currentHash)\<close> is false for a nil stored hash, since the
  digest is never nil.
\<close>

definition processEventTriggerDeploy ::
  "('c, 'w) Reconciler \<Rightarrow> EventTrigger \<Rightarrow> ObjectReference \<Rightarrow> feature \<Rightarrow> string \<Rightarrow> 'w \<Rightarrow>
     ((ClusterInfo option \<times> error option) \<times> 'w) outcome" where
  "processEventTriggerDeploy r resource cluster f currentHash w =
     (let w1 = CleanupEntries r (deployKey r resource cluster f True) w in
      if IsInProgress r (deployKey r resource cluster f True) w1
      then Returned ((None, Some (Error (''cleanup of '' @ featureId f @
                       '' in cluster still in progress. Wait before redeploying''))), w1)
      else
        (let (hash, currentStatus) = getClusterHashAndStatus r resource cluster;
             isConfigSame = (hash = Some currentHash);
             result = (if isConfigSame then GetResult r (deployKey r resource cluster f False) w1
                       else \<lparr>ResultStatus = Deployed, Err = None\<rparr>);
             status = (if isConfigSame then convertResultStatus result else None)
         in
         case status of
           Some s \<Rightarrow>
             (let errorMessage = (case Err result of Some e \<Rightarrow> ErrorText e | None \<Rightarrow> [] );
                  clusterInfo = \<lparr>Cluster = cluster, Hash = Some currentHash, Status = s,
                                 FailureMessage = Some errorMessage\<rparr>
              in
              if s = SveltosStatusProvisioned then Returned ((Some clusterInfo, None), w1)
              else if s = SveltosStatusProvisioning
              then Returned ((Some clusterInfo, Some (Error ''EventTrigger is still being provisioned'')), w1)
              else processEventTriggerTail cluster currentHash s w1)
         | None \<Rightarrow>
             (if isConfigSame \<and> currentStatus = Some SveltosStatusProvisioned
              then processEventTriggerTail cluster currentHash SveltosStatusProvisioned w1
              else (case Deploy r (deployKey r resource cluster f False)
                           processEventTriggerForCluster w1 of
                      (Some err, w2) \<Rightarrow> Returned ((None, Some err), w2)
                    | (None, w2) \<Rightarrow>
                        processEventTriggerTail cluster currentHash SveltosStatusProvisioning w2))))"

definition processEventTrigger ::
  "('c, 'w) Reconciler \<Rightarrow> EventTrigger \<Rightarrow> ObjectReference \<Rightarrow> feature \<Rightarrow> 'w \<Rightarrow>
     ((ClusterInfo option \<times> error option) \<times> 'w) outcome" where
  "processEventTrigger r resource cluster f w =
     (if \<not> isClusterStillMatching resource cluster then removeEventTrigger r resource cluster f w
      else
        (case eventTriggerHash r resource cluster of
           Panicked \<Rightarrow> Panicked
         | Returned (Inl err) \<Rightarrow> Returned ((None, Some err), w)
         | Returned (Inr currentHash) \<Rightarrow>
             (case canProceed r resource cluster of
                Inl err \<Rightarrow> Returned ((None, Some err), w)
              | Inr proceed \<Rightarrow>
                  (if \<not> proceed then Returned ((None, None), w)
                   else processEventTriggerDeploy r resource cluster f currentHash w))))"

section \<open>The trigger-level deploy\<close>

text \<open>
  \<open>base64.StdEncoding.EncodeToString\<close>: three bytes become four letters of the
  standard alphabet; a final group of one or two bytes is padded with \<open>=\<close>.
\<close>

definition encodeStd :: string where
  "encodeStd = ''ABCDEFGHIJKLMNOPQRSTUVWXYZabcdefghijklmnopqrstuvwxyz0123456789+/''"

definition base64Letter :: "nat \<Rightarrow> char" where
  "base64Letter n = encodeStd ! (n mod 64)"

fun EncodeToString :: "string \<Rightarrow> string" where
  "EncodeToString [] = []"
| "EncodeToString [a] =
     (let x = (of_char a :: nat) in
      [base64Letter (x div 4), base64Letter ((x mod 4) * 16), CHR ''='', CHR ''=''])"
| "EncodeToString [a, b] =
     (let x = (of_char a :: nat); y = (of_char b :: nat) in
      [base64Letter (x div 4), base64Letter ((x mod 4) * 16 + y div 16),
       base64Letter ((y mod 16) * 4), CHR ''=''])"
| "EncodeToString (a # b # c # rest) =
     (let x = (of_char a :: nat); y = (of_char b :: nat); z = (of_char c :: nat) in
      [base64Letter (x div 4), base64Letter ((x mod 4) * 16 + y div 16),
       base64Letter ((y mod 16) * 4 + z div 64), base64Letter (z mod 64)]
      @ EncodeToString rest)"

text \<open>The hash written into an entry of another shard whose hash is nil.\<close>

definition emptyHash :: string where
  "emptyHash = EncodeToString ''empty''"

text \<open>
  The variables one iteration of the loop in \<open>deployEventTrigger\<close> reads and writes:
  the EventTrigger whose \<open>Status.ClusterInfo\<close> is updated in place (it is also the
  object \<open>processEventTrigger\<close> reads through the scope), \<open>errorSeen\<close>,
  \<open>allProcessed\<close>, and the state of the dispatcher and of the stored EventTrigger.
\<close>

record 'w deployState =
  resource :: EventTrigger
  errorSeen :: "error option"
  allProcessed :: bool
  world :: 'w

definition setClusterInfoAt :: "EventTrigger \<Rightarrow> nat \<Rightarrow> ClusterInfo \<Rightarrow> EventTrigger" where
  "setClusterInfoAt e i clusterInfo =
     e\<lparr>TriggerStatus := (TriggerStatus e)\<lparr>StatusClusterInfo :=
          (StatusClusterInfo (TriggerStatus e))[i := clusterInfo]\<rparr>\<rparr>"

text \<open>
  One iteration, for index \<open>i\<close>. The first component of the result is the error of
  an immediate \<open>return err\<close>; \<open>None\<close> means the loop goes on.
\<close>

definition deployEventTriggerStep ::
  "('c, 'w) Reconciler \<Rightarrow> feature \<Rightarrow> nat \<Rightarrow> 'w deployState \<Rightarrow> (error option \<times> 'w deployState) outcome" where
  "deployEventTriggerStep r f i st =
     (if \<not> i < length (StatusClusterInfo (TriggerStatus (resource st))) then Panicked
      else
        (let c = StatusClusterInfo (TriggerStatus (resource st)) ! i in
         case isClusterAShardMatch r c of
           Inl err \<Rightarrow> Returned (Some err, st)
         | Inr shardMatch \<Rightarrow>
             (if \<not> shardMatch
              then Returned (None,
                     st\<lparr>allProcessed :=
                          (if Status c \<noteq> SveltosStatusProvisioned then False else allProcessed st),
                        resource :=
                          (if Hash c = None
                           then setClusterInfoAt (resource st) i (c\<lparr>Hash := Some emptyHash\<rparr>)
                           else resource st)\<rparr>)
              else
                (case processEventTrigger r (resource st) (Cluster c) f (world st) of
                   Panicked \<Rightarrow> Panicked
                 | Returned ((clusterInfo, err), w') \<Rightarrow>
                     (let st1 = st\<lparr>world := w',
                                   errorSeen := (if err \<noteq> None then err else errorSeen st)\<rparr> in
                      case clusterInfo of
                        None \<Rightarrow> Returned (None, st1)
                      | Some ci \<Rightarrow>
                          Returned (None,
                            st1\<lparr>resource := setClusterInfoAt (resource st) i ci,
                                allProcessed :=
                                  (if Status ci \<noteq> SveltosStatusProvisioned then False
                                   else allProcessed st)\<rparr>))))))"

fun deployEventTriggerLoop ::
  "('c, 'w) Reconciler \<Rightarrow> feature \<Rightarrow> nat list \<Rightarrow> 'w deployState \<Rightarrow> (error option \<times> 'w deployState) outcome" where
  "deployEventTriggerLoop r f [] st = Returned (None, st)"
| "deployEventTriggerLoop r f (i # rest) st =
     (case deployEventTriggerStep r f i st of
        Panicked \<Rightarrow> Panicked
      | Returned (Some err, st') \<Rightarrow> Returned (Some err, st')
      | Returned (None, st') \<Rightarrow> deployEventTriggerLoop r f rest st')"

text \<open>
  \<open>deployEventTrigger\<close> returns its error (or nil), and leaves behind the updated
  EventTrigger and state. \<open>eScope.SetClusterInfo\<close> stores the slice that was updated in
  place into the same EventTrigger, so it changes nothing here.
\<close>

definition deployEventTrigger ::
  "('c, 'w) Reconciler \<Rightarrow> EventTrigger \<Rightarrow> feature \<Rightarrow> 'w \<Rightarrow> (error option \<times> EventTrigger \<times> 'w) outcome" where
  "deployEventTrigger r e f w =
     (case deployEventTriggerLoop r f [0 ..< length (StatusClusterInfo (TriggerStatus e))]
             \<lparr>resource = e, errorSeen = None, allProcessed = True, world = w\<rparr> of
        Panicked \<Rightarrow> Panicked
      | Returned (Some err, st) \<Rightarrow> Returned (Some err, resource st, world st)
      | Returned (None, st) \<Rightarrow>
          (if errorSeen st \<noteq> None then Returned (errorSeen st, resource st, world st)
           else if \<not> allProcessed st
           then Returned (Some (Error ''request to process EventTrigger is still queued in one ore more clusters''),
                          resource st, world st)
           else Returned (None, resource st, world st)))"

section \<open>Matcher\<close>

text \<open>\<open>reconcile.Request\<close>: the namespaced name of the EventTrigger to reconcile.\<close>

record Request =
  reqNamespace :: string
  reqName :: string

text \<open>
  The reconciler's index, as the matchers read it. \<open>getEventSourceMapForEntry\<close>,
  \<open>getClusterMapForEntry\<close> and \<open>getReferenceMapForEntry\<close> give the \<open>Items()\<close> of the
  set kept for a key (a set of object references: its items are pairwise different
  references). \<open>EventTriggers\<close> is a Go map from EventTrigger to selector, listed in the
  order the \<open>range\<close> loop visits it; its keys are pairwise different.
  \<open>labelsParse\<close> is \<open>labels.Parse\<close>, \<open>None\<close> when it returns an error (and a nil
  selector); \<open>Matches\<close> is the parsed selector's method.
\<close>

record 'p EventTriggerIndex =
  ClusterLabels :: "ObjectReference \<rightharpoonup> (string \<rightharpoonup> string)"
  EventTriggers :: "(ObjectReference \<times> string) list"
  getEventSourceMapForEntry :: "ObjectReference \<Rightarrow> ObjectReference list"
  getClusterMapForEntry :: "ObjectReference \<Rightarrow> ObjectReference list"
  getReferenceMapForEntry :: "ObjectReference \<Rightarrow> ObjectReference list"
  labelsParse :: "string \<Rightarrow> 'p option"
  Matches :: "'p \<Rightarrow> (string \<rightharpoonup> string) \<Rightarrow> bool"

definition eventSourceInfo :: "string \<Rightarrow> ObjectReference" where
  "eventSourceInfo name =
     \<lparr>Kind = ''EventSource'', Namespace = [], Name = name, UID = [],
      APIVersion = ''lib.projectsveltos.io/v1alpha1'', ResourceVersion = [], FieldPath = []\<rparr>"

definition requestByName :: "ObjectReference \<Rightarrow> Request" where
  "requestByName consumer = \<lparr>reqNamespace = [], reqName = Name consumer\<rparr>"

definition requeueEventTriggerForEventReport :: "'p EventTriggerIndex \<Rightarrow> EventReport \<Rightarrow> Request list" where
  "requeueEventTriggerForEventReport r eventReport =
     map requestByName
       (getEventSourceMapForEntry r (eventSourceInfo (erEventSourceName (erSpec eventReport))))"

definition requeueEventTriggerForEventSource :: "'p EventTriggerIndex \<Rightarrow> EventSource \<Rightarrow> Request list" where
  "requeueEventTriggerForEventSource r eventSource =
     map requestByName (getEventSourceMapForEntry r (eventSourceInfo (esName eventSource)))"

text \<open>
  A cluster as the cluster matcher sees it: namespace, name and labels, and the API
  version and kind \<open>addTypeInformationToObject\<close> has filled in.
\<close>

record ClusterObject =
  coAPIVersion :: string
  coKind :: string
  coNamespace :: string
  coName :: string
  coLabels :: "string \<rightharpoonup> string"

text \<open>
  The second loop of \<open>requeueEventTriggerForCluster\<close>: one more request for every
  EventTrigger whose selector matches the labels. The error of \<open>labels.Parse\<close> is
  dropped by the code; calling \<open>Matches\<close> on the nil selector it returns then panics.
\<close>

fun appendMatchingEventTriggers ::
  "'p EventTriggerIndex \<Rightarrow> (string \<rightharpoonup> string) \<Rightarrow> (ObjectReference \<times> string) list \<Rightarrow>
     Request list \<Rightarrow> Request list outcome" where
  "appendMatchingEventTriggers r clusterLabels [] requests = Returned requests"
| "appendMatchingEventTriggers r clusterLabels ((k, eventTriggerSelector) # rest) requests =
     (case labelsParse r eventTriggerSelector of
        None \<Rightarrow> Panicked
      | Some parsedSelector \<Rightarrow>
          appendMatchingEventTriggers r clusterLabels rest
            (if Matches r parsedSelector clusterLabels
             then requests @ [\<lparr>reqNamespace = [], reqName = Name k\<rparr>]
             else requests))"

text \<open>The matcher returns its requests and leaves the labels of the cluster in the index.\<close>

definition requeueEventTriggerForCluster ::
  "'p EventTriggerIndex \<Rightarrow> ClusterObject \<Rightarrow> Request list outcome \<times> 'p EventTriggerIndex" where
  "requeueEventTriggerForCluster r cluster =
     (let clusterInfo = \<lparr>Kind = coKind cluster, Namespace = coNamespace cluster,
                           Name = coName cluster, UID = [], APIVersion = coAPIVersion cluster,
                           ResourceVersion = [], FieldPath = []\<rparr>;
          r' = r\<lparr>ClusterLabels := (ClusterLabels r)(clusterInfo \<mapsto> coLabels cluster)\<rparr>;
          requests = map requestByName (getClusterMapForEntry r' clusterInfo)
      in (appendMatchingEventTriggers r' (coLabels cluster) (EventTriggers r') requests, r'))"

text \<open>A ConfigMap, a Secret, or another object with its own API version and kind.\<close>

datatype ReferencedChange =
    ChangedConfigMap string string
  | ChangedSecret string string
  | ChangedOther string string string string

fun referencedKey :: "ReferencedChange \<Rightarrow> ObjectReference" where
  "referencedKey (ChangedConfigMap ns n) =
     \<lparr>Kind = ''ConfigMap'', Namespace = ns, Name = n, UID = [], APIVersion = ''v1'',
      ResourceVersion = [], FieldPath = []\<rparr>"
| "referencedKey (ChangedSecret ns n) =
     \<lparr>Kind = ''Secret'', Namespace = ns, Name = n, UID = [], APIVersion = ''v1'',
      ResourceVersion = [], FieldPath = []\<rparr>"
| "referencedKey (ChangedOther apiVersion kind ns n) =
     \<lparr>Kind = kind, Namespace = ns, Name = n, UID = [], APIVersion = apiVersion,
      ResourceVersion = [], FieldPath = []\<rparr>"

definition requeueEventTriggerForReference :: "'p EventTriggerIndex \<Rightarrow> ReferencedChange \<Rightarrow> Request list" where
  "requeueEventTriggerForReference r obj =
     map (\<lambda>consumer. \<lparr>reqNamespace = Namespace consumer, reqName = Name consumer\<rparr>)
       (getReferenceMapForEntry r (referencedKey obj))"

section \<open>Names of derived objects\<close>

text \<open>
  \<open>getInstantiatedObjectName\<close>. \<open>RandomString\<close> is \<open>util.RandomString\<close> of
  cluster-api: it draws from a generator \<open>'g\<close>. \<open>GetName\<close> reads the name of an
  object. The result is Go's triple \<open>(name, create, err)\<close>, named results that keep
  their zero values where the code does not assign them.
\<close>

definition getInstantiatedObjectName ::
  "(nat \<Rightarrow> 'g \<Rightarrow> string \<times> 'g) \<Rightarrow> ('o \<Rightarrow> string) \<Rightarrow> 'o list \<Rightarrow> 'g \<Rightarrow>
     (string \<times> bool \<times> error option) \<times> 'g" where
  "getInstantiatedObjectName RandomString GetName objects g =
     (case objects of
        [] \<Rightarrow> (let (suffix, g') = RandomString 20 g in ((''sveltos-'' @ suffix, True, None), g'))
      | [object] \<Rightarrow> ((GetName object, False, None), g)
      | _ \<Rightarrow> (([], False, Some (Error ''more than one resource'')), g))"

section \<open>Remote EventSource cleanup\<close>

text \<open>
  The objects \<open>removeStaleEventSources\<close> works on: the EventSources of the managed
  cluster and the EventReports of the management cluster.
\<close>

record ClusterState =
  remoteEventSources :: "EventSource list"
  eventReports :: "EventReport list"

text \<open>
  How the clients answer. Each call may fail with an error of its own; a call that does
  not fail has its effect on the state. \<open>IsOwnedByObject\<close> (cluster-api) and
  \<open>RemoveOwnerReference\<close> (libsveltos) are library helpers.
\<close>

record ClusterAccess =
  GetKubernetesClientErr :: "error option"
  ListEventSourcesErr :: "error option"
  UpdateEventSourceErr :: "EventSource \<Rightarrow> error option"
  DeleteEventSourceErr :: "EventSource \<Rightarrow> error option"
  ListEventReportsErr :: "error option"
  DeleteEventReportErr :: "EventReport \<Rightarrow> error option"
  IsOwnedByObject :: "EventSource \<Rightarrow> EventTrigger \<Rightarrow> bool"
  RemoveOwnerReference :: "EventSource \<Rightarrow> EventTrigger \<Rightarrow> EventSource"

text \<open>Label keys of libsveltos, and \<open>strings.ToLower(string(clusterType))\<close>.\<close>

definition EventReportClusterNameLabel :: string where
  "EventReportClusterNameLabel = ''eventreport.projectsveltos.io/cluster-name''"

definition EventReportClusterTypeLabel :: string where
  "EventReportClusterTypeLabel = ''eventreport.projectsveltos.io/cluster-type''"

definition EventSourceNameLabel :: string where
  "EventSourceNameLabel = ''projectsveltos.io/eventsource-name''"

fun lowerClusterType :: "ClusterType \<Rightarrow> string" where
  "lowerClusterType ClusterTypeCapi = ''capi''"
| "lowerClusterType ClusterTypeSveltos = ''sveltos''"

text \<open>The EventReports \<open>c.List\<close> selects: the namespace and the three labels.\<close>

definition staleEventReport :: "string \<Rightarrow> string \<Rightarrow> string \<Rightarrow> ClusterType \<Rightarrow> EventReport \<Rightarrow> bool" where
  "staleEventReport clusterNamespace clusterName eventSourceName clusterType er \<longleftrightarrow>
     erNamespace er = clusterNamespace \<and>
     erLabels er EventReportClusterNameLabel = Some clusterName \<and>
     erLabels er EventReportClusterTypeLabel = Some (lowerClusterType clusterType) \<and>
     erLabels er EventSourceNameLabel = Some eventSourceName"

fun deleteEventReports :: "ClusterAccess \<Rightarrow> EventReport list \<Rightarrow> ClusterState \<Rightarrow> error option \<times> ClusterState" where
  "deleteEventReports a [] s = (None, s)"
| "deleteEventReports a (er # rest) s =
     (case DeleteEventReportErr a er of
        Some err \<Rightarrow> (Some err, s)
      | None \<Rightarrow>
          deleteEventReports a rest
            (s\<lparr>eventReports :=
                 filter (\<lambda>x. \<not> (erNamespace x = erNamespace er \<and> erName x = erName er))
                   (eventReports s)\<rparr>))"

definition removeStaleEventReports ::
  "ClusterAccess \<Rightarrow> string \<Rightarrow> string \<Rightarrow> string \<Rightarrow> ClusterType \<Rightarrow> ClusterState \<Rightarrow> error option \<times> ClusterState" where
  "removeStaleEventReports a clusterNamespace clusterName eventSourceName clusterType s =
     (case ListEventReportsErr a of
        Some err \<Rightarrow> (Some err, s)
      | None \<Rightarrow>
          deleteEventReports a
            (filter (staleEventReport clusterNamespace clusterName eventSourceName clusterType)
               (eventReports s)) s)"

text \<open>
  The loop of \<open>removeStaleEventSources\<close> over the EventSources that were listed;
  \<open>removeAllFlag\<close> is its argument \<open>removeAll\<close>. Where \<open>removeStaleEventReports\<close>
  fails, the code returns nil.
\<close>

fun removeStaleEventSourcesLoop ::
  "ClusterAccess \<Rightarrow> string \<Rightarrow> string \<Rightarrow> ClusterType \<Rightarrow> EventTrigger \<Rightarrow> bool \<Rightarrow>
     EventSource list \<Rightarrow> ClusterState \<Rightarrow> error option \<times> ClusterState" where
  "removeStaleEventSourcesLoop a clusterNamespace clusterName clusterType trigger removeAllFlag [] s = (None, s)"
| "removeStaleEventSourcesLoop a clusterNamespace clusterName clusterType trigger removeAllFlag (es # rest) s =
     (if \<not> removeAllFlag \<and> \<not> TriggerDeleting trigger \<and> esName es = EventSourceName (Spec trigger)
      then removeStaleEventSourcesLoop a clusterNamespace clusterName clusterType trigger removeAllFlag rest s
      else if \<not> IsOwnedByObject a es trigger
      then removeStaleEventSourcesLoop a clusterNamespace clusterName clusterType trigger removeAllFlag rest s
      else
        (let es' = RemoveOwnerReference a es trigger in
         if length (esOwnerReferences es') \<noteq> 0
         then (case UpdateEventSourceErr a es' of
                 Some err \<Rightarrow> (Some err, s)
               | None \<Rightarrow>
                   removeStaleEventSourcesLoop a clusterNamespace clusterName clusterType trigger removeAllFlag rest
                     (s\<lparr>remoteEventSources :=
                          map (\<lambda>x. if esName x = esName es' then es' else x) (remoteEventSources s)\<rparr>))
         else (case removeStaleEventReports a clusterNamespace clusterName (esName es') clusterType s of
                 (Some err, s1) \<Rightarrow> (None, s1)
               | (None, s1) \<Rightarrow>
                   (case DeleteEventSourceErr a es' of
                      Some err \<Rightarrow> (Some err, s1)
                    | None \<Rightarrow>
                        removeStaleEventSourcesLoop a clusterNamespace clusterName clusterType trigger removeAllFlag rest
                          (s1\<lparr>remoteEventSources :=
                                filter (\<lambda>x. esName x \<noteq> esName es') (remoteEventSources s1)\<rparr>)))))"

definition removeStaleEventSources ::
  "ClusterAccess \<Rightarrow> string \<Rightarrow> string \<Rightarrow> ClusterType \<Rightarrow> EventTrigger \<Rightarrow> bool \<Rightarrow>
     ClusterState \<Rightarrow> error option \<times> ClusterState" where
  "removeStaleEventSources a clusterNamespace clusterName clusterType trigger removeAllFlag s =
     (case GetKubernetesClientErr a of
        Some err \<Rightarrow> (Some err, s)
      | None \<Rightarrow>
          (case ListEventSourcesErr a of
             Some err \<Rightarrow> (Some err, s)
           | None \<Rightarrow>
               removeStaleEventSourcesLoop a clusterNamespace clusterName clusterType trigger removeAllFlag
                 (remoteEventSources s) s))"

section \<open>Template expansion and sweeping\<close>

text \<open>
  The derived objects of the management cluster. A \<open>Ref\<close> is what the sweeper keeps
  of a \<open>PolicyRef\<close> or of a \<open>ValueFrom\<close>: kind, namespace and name. A
  \<open>ValuesHolder\<close> is a HelmChart or a KustomizationRef, of which only \<open>ValuesFrom\<close>
  is read here.
\<close>

record Ref =
  refKind :: string
  refNamespace :: string
  refName :: string

record ValuesHolder =
  ValuesFrom :: "Ref list"
  holderOther :: string

text \<open>
  \<open>configv1beta1.ClusterProfile\<close>: name, labels, and the fields of its \<open>Spec\<close>.
  \<open>cpCopiedFields\<close> holds the fields \<open>getNonInstantiatedClusterProfile\<close> copies from
  the spec of the EventTrigger (\<open>StopMatchingBehavior\<close>, \<open>SyncMode\<close>, \<open>Tier\<close>,
  \<open>ContinueOnConflict\<close>, \<open>Reloader\<close>, \<open>MaxUpdate\<close>, \<open>ValidateHealths\<close>,
  \<open>Patches\<close>, \<open>ExtraLabels\<close>, \<open>ExtraAnnotations\<close>); \<open>cpTemplateResourceRefs\<close> is
  the instantiated list as the template engine returned it. An empty
  \<open>cpClusterSelector\<close> is \<open>Selector{}\<close>.
\<close>

record ClusterProfile =
  cpName :: string
  cpLabels :: "string \<rightharpoonup> string"
  cpCopiedFields :: string
  cpTemplateResourceRefs :: string
  cpClusterRefs :: "ObjectReference list"
  cpClusterSelector :: string
  cpHelmCharts :: "ValuesHolder list"
  cpKustomizationRefs :: "ValuesHolder list"
  cpPolicyRefs :: "Ref list"

text \<open>
  The state of the management cluster the expander works on, and the number of strings
  drawn so far from \<open>util.RandomString\<close>.
\<close>

record Management =
  clusterProfiles :: "ClusterProfile list"
  configMaps :: "ConfigMap list"
  secrets :: "Secret list"
  randomDraws :: nat

text \<open>\<open>unstructured.Unstructured\<close>: the accessors the code calls, and the content.\<close>

record Unstructured =
  uAPIVersion :: string
  uKind :: string
  uNamespace :: string
  uName :: string
  UnstructuredContent :: string

text \<open>
  \<open>currentObject\<close> and \<open>currentObjects\<close>, the values handed to the templates.
  \<open>Resource\<close> is a Go map: \<open>None\<close> is the nil map. The instantiation functions take
  either of the two as \<open>data any\<close>.
\<close>

record currentObject =
  MatchingResource :: ObjectReference
  Resource :: "string option"
  CurrentCluster :: string

record currentObjects =
  AllMatchingResources :: "ObjectReference list"
  AllResources :: "string list"
  CurrentClusters :: string

datatype templateData = ObjectData currentObject | ObjectsData currentObjects

text \<open>
  What the expander reaches outside this file.

  The API server: \<open>ListErr\<close> is the error of \<open>c.List\<close> for a kind; \<open>DeleteErr\<close>,
  \<open>GetErr\<close>, \<open>CreateErr\<close> and \<open>UpdateErr\<close> are the errors of \<open>c.Delete\<close>,
  \<open>c.Get\<close>, \<open>c.Create\<close> and \<open>c.Update\<close> for an object of a kind, a namespace and a
  name, other than the object being absent or present already.
  \<open>utilRandomString n k\<close> is the string \<open>util.RandomString(n)\<close> of cluster-api returns
  when \<open>k\<close> strings were drawn before.
  \<open>GetUnstructured\<close> parses one document; \<open>fecthClusterObjects\<close> fetches the cluster;
  \<open>getPolicyRefOfConfigMap\<close> and \<open>getPolicyRefOfSecret\<close> are \<open>getPolicyRef\<close> on
  the two kinds.

  The template engine. \<open>DestinationClusterSelector\<close> reads the field of that name of the
  spec (kept in \<open>OtherSpecFields\<close>). \<open>instantiateTemplateResourceRefs\<close>,
  \<open>instantiateHelmCharts\<close>, \<open>instantiateKustomizationRefs\<close> and
  \<open>instantiateReferencedPolicies\<close> run \<open>text/template\<close> over the template resource
  references, the charts, the kustomizations and the policy references of the spec,
  their arguments in the order of the source (template name, cluster namespace or
  cluster reference, the spec or the EventTrigger, the data, the labels). The last three
  read ConfigMaps and Secrets and create or update, in \<open>ReportNamespace\<close>, one for every
  referenced ConfigMap or Secret that is a template. \<open>labels\<close> is a Go map, shared with
  the caller: for every reference it instantiates, \<open>instantiateReferencedPolicy\<close>
  assigns \<open>labels[referencedResourceNamespaceLabel]\<close> and
  \<open>labels[referencedResourceNameLabel]\<close>, and nothing else writes to the map. So each
  of the three returns, with its result, the namespace and name of the last reference it
  instantiated (\<open>None\<close> when it instantiated none), from which the caller's map follows.
  \<open>instantiateReferencedPolicies\<close> returns the items of its two sets, local then
  remote.
\<close>

record ManagementClient =
  ListErr :: "string \<Rightarrow> error option"
  DeleteErr :: "string \<Rightarrow> string \<Rightarrow> string \<Rightarrow> error option"
  GetErr :: "string \<Rightarrow> string \<Rightarrow> string \<Rightarrow> error option"
  CreateErr :: "string \<Rightarrow> string \<Rightarrow> string \<Rightarrow> error option"
  UpdateErr :: "string \<Rightarrow> string \<Rightarrow> string \<Rightarrow> error option"
  utilRandomString :: "nat \<Rightarrow> nat \<Rightarrow> string"
  GetUnstructured :: "string \<Rightarrow> error + Unstructured"
  fecthClusterObjects :: "string \<Rightarrow> string \<Rightarrow> ClusterType \<Rightarrow> error + string"
  getPolicyRefOfConfigMap :: "ConfigMap \<Rightarrow> Ref"
  getPolicyRefOfSecret :: "Secret \<Rightarrow> Ref"
  DestinationClusterSelector :: "EventTriggerSpec \<Rightarrow> string"
  instantiateTemplateResourceRefs ::
    "string \<Rightarrow> string \<Rightarrow> templateData \<Rightarrow> EventTriggerSpec \<Rightarrow> error + string"
  instantiateHelmCharts ::
    "string \<Rightarrow> string \<Rightarrow> EventTriggerSpec \<Rightarrow> templateData \<Rightarrow> (string \<times> string) list \<Rightarrow>
       Management \<Rightarrow> (error + ValuesHolder list \<times> (string \<times> string) option) \<times> Management"
  instantiateKustomizationRefs ::
    "string \<Rightarrow> string \<Rightarrow> EventTriggerSpec \<Rightarrow> templateData \<Rightarrow> (string \<times> string) list \<Rightarrow>
       Management \<Rightarrow> (error + ValuesHolder list \<times> (string \<times> string) option) \<times> Management"
  instantiateReferencedPolicies ::
    "string \<Rightarrow> EventTrigger \<Rightarrow> ObjectReference \<Rightarrow> templateData \<Rightarrow> (string \<times> string) list \<Rightarrow>
       Management \<Rightarrow>
       (error + (ObjectReference list \<times> ObjectReference list) \<times> (string \<times> string) option) \<times> Management"

definition ReportNamespace :: string where
  "ReportNamespace = ''projectsveltos''"















text \<open>\<open>client.MatchingLabels\<close>: the object carries every entry of the selector.\<close>

definition MatchingLabels :: "(string \<times> string) list \<Rightarrow> (string \<rightharpoonup> string) \<Rightarrow> bool" where
  "MatchingLabels selector objectLabels \<longleftrightarrow> list_all (\<lambda>(k, v). objectLabels k = Some v) selector"


definition getConfigMapName ::
  "ManagementClient \<Rightarrow> (nat \<Rightarrow> 'g \<Rightarrow> string \<times> 'g) \<Rightarrow> (string \<times> string) list \<Rightarrow> Management \<Rightarrow> 'g \<Rightarrow>
     (string \<times> bool \<times> error option) \<times> 'g" where
  "getConfigMapName c RandomString selector s g =
     (case ListErr c ''ConfigMap'' of
        Some err \<Rightarrow> (([], False, Some err), g)
      | None \<Rightarrow>
          getInstantiatedObjectName RandomString cmName
            (filter (\<lambda>cm. MatchingLabels selector (cmLabels cm) \<and> cmNamespace cm = ReportNamespace)
               (configMaps s)) g)"

definition getSecretName ::
  "ManagementClient \<Rightarrow> (nat \<Rightarrow> 'g \<Rightarrow> string \<times> 'g) \<Rightarrow> (string \<times> string) list \<Rightarrow> Management \<Rightarrow> 'g \<Rightarrow>
     (string \<times> bool \<times> error option) \<times> 'g" where
  "getSecretName c RandomString selector s g =
     (case ListErr c ''Secret'' of
        Some err \<Rightarrow> (([], False, Some err), g)
      | None \<Rightarrow>
          getInstantiatedObjectName RandomString secName
            (filter (\<lambda>sec. MatchingLabels selector (secLabels sec) \<and> secNamespace sec = ReportNamespace)
               (secrets s)) g)"

subsection \<open>Sweeping\<close>









subsection \<open>Expansion\<close>
























section \<open>Notions used to state the properties\<close>

abbreviation infos :: "EventTrigger \<Rightarrow> ClusterInfo list" where
  "infos e \<equiv> StatusClusterInfo (TriggerStatus e)"

text \<open>What the loop does to the entry of a cluster of another shard.\<close>

definition substituteEmptyHash :: "ClusterInfo \<Rightarrow> ClusterInfo" where
  "substituteEmptyHash c = (if Hash c = None then c\<lparr>Hash := Some emptyHash\<rparr> else c)"


text \<open>Two EventTriggers that differ at most in the hash, status and message of their entries.\<close>

definition sameClusters :: "EventTrigger \<Rightarrow> EventTrigger \<Rightarrow> bool" where
  "sameClusters e e' \<longleftrightarrow>
     (\<exists>xs. e' = e\<lparr>TriggerStatus := (TriggerStatus e)\<lparr>StatusClusterInfo := xs\<rparr>\<rparr> \<and>
           map Cluster xs = map Cluster (infos e))"

text \<open>The EventTrigger with one entry of its status replaced by the result of \<open>remove\<close>.\<close>

definition withClusterInfo :: "EventTrigger \<Rightarrow> ClusterInfo list \<Rightarrow> EventTrigger" where
  "withClusterInfo e xs = e\<lparr>TriggerStatus := (TriggerStatus e)\<lparr>StatusClusterInfo := xs\<rparr>\<rparr>"

text \<open>An EventTrigger of the index whose selector parses and matches the labels.\<close>

definition selects :: "'p EventTriggerIndex \<Rightarrow> (string \<rightharpoonup> string) \<Rightarrow> ObjectReference \<times> string \<Rightarrow> bool" where
  "selects r ls t = (case labelsParse r (snd t) of None \<Rightarrow> False | Some p \<Rightarrow> Matches r p ls)"








text \<open>A Go map filled by assigning the entries in the order of the list.\<close>

fun assignAll :: "(string \<times> string) list \<Rightarrow> (string \<rightharpoonup> string) \<Rightarrow> (string \<rightharpoonup> string)" where
  "assignAll [] m = m"
| "assignAll ((k, v) # rest) m = assignAll rest (m(k \<mapsto> v))"

definition goMap :: "(string \<times> string) list \<Rightarrow> (string \<rightharpoonup> string)" where
  "goMap kvs = assignAll kvs Map.empty"

text \<open>
  Two fetched resources with the same body: the same kind, and the same data (ConfigMap,
  Secret) or spec (EventSource, EventReport); names, labels and other metadata may differ.
\<close>

fun sameBody :: "ReferencedObject \<Rightarrow> ReferencedObject \<Rightarrow> bool" where
  "sameBody (ConfigMapObject a) (ConfigMapObject b) \<longleftrightarrow> cmData a = cmData b"
| "sameBody (SecretObject a) (SecretObject b) \<longleftrightarrow> secData a = secData b"
| "sameBody (EventSourceObject a) (EventSourceObject b) \<longleftrightarrow> esSpec a = esSpec b"
| "sameBody (EventReportObject a) (EventReportObject b) \<longleftrightarrow> erSpec a = erSpec b"
| "sameBody (OtherObject a) (OtherObject b) \<longleftrightarrow> True"
| "sameBody _ _ \<longleftrightarrow> False"

section \<open>A small management cluster for concrete runs\<close>

text \<open>
  The state: the jobs handed to the dispatcher, the stored EventTrigger, and how many of
  the next status updates the API server rejects with a conflict.
\<close>

record exampleWorld =
  queued :: "(DeployKey \<times> RequestHandler) list"
  storedTrigger :: EventTrigger
  pendingConflicts :: nat

text \<open>
  This replica has shard key \<open>shard-a\<close>; clusters of namespace \<open>peer\<close> belong to
  \<open>shard-b\<close>; the cluster named \<open>paused\<close> is paused; every cluster is ready; nothing
  is in progress; \<open>results\<close> is what the dispatcher remembers for each key. Rendering and
  digest are stand-ins that keep their input visible.
\<close>

definition exampleReconciler :: "(DeployKey \<Rightarrow> Result) \<Rightarrow> (string, exampleWorld) Reconciler" where
  "exampleReconciler results =
     \<lparr>ShardKey = ''shard-a'',
      GetCluster = (\<lambda>ns n t. if n = ''missing'' then Inl (NotFound ''cluster not found'')
                              else if ns = ''peer'' then Inr ''shard-b'' else Inr ''shard-a''),
      IsShardAMatch = (\<lambda>k c. k = c),
      GetClusterType = (\<lambda>ref. if Kind ref = ''SveltosCluster'' then ClusterTypeSveltos
                               else ClusterTypeCapi),
      IsClusterPaused = (\<lambda>ns n t. Inr (n = ''paused'')),
      IsClusterReadyToBeConfigured = (\<lambda>c. Inr True),
      fetchReferencedResources = (\<lambda>e c. Inr []),
      renderSpec = (\<lambda>s. EventSourceName s @ ''/'' @ OtherSpecFields s),
      renderStringMap = (\<lambda>m. []),
      renderBytesMap = (\<lambda>m. []),
      renderEventSourceSpec = ResourceSelectors,
      renderEventReportSpec = Resources,
      sha256 = (\<lambda>s. ''digest of '' @ s),
      CleanupEntries = (\<lambda>k w. w),
      IsInProgress = (\<lambda>k w. False),
      GetResult = (\<lambda>k w. results k),
      Deploy = (\<lambda>k h w. (None, w\<lparr>queued := queued w @ [(k, h)]\<rparr>)),
      GetEventTrigger = (\<lambda>n w. if TriggerName (storedTrigger w) = n then Inr (storedTrigger w)
                                 else Inl (NotFound ''eventtrigger not found'')),
      StatusUpdate = (\<lambda>e w. if 0 < pendingConflicts w
                              then (Some (Conflict ''the object has been modified''),
                                    w\<lparr>pendingConflicts := pendingConflicts w - 1\<rparr>)
                              else (None, w\<lparr>storedTrigger := e\<rparr>))\<rparr>"

definition exampleCluster :: "string \<Rightarrow> string \<Rightarrow> ObjectReference" where
  "exampleCluster ns n =
     \<lparr>Kind = ''SveltosCluster'', Namespace = ns, Name = n, UID = [],
      APIVersion = ''lib.projectsveltos.io/v1beta1'', ResourceVersion = [], FieldPath = []\<rparr>"

definition exampleTrigger :: "ObjectReference list \<Rightarrow> ClusterInfo list \<Rightarrow> EventTrigger" where
  "exampleTrigger matching entries =
     \<lparr>TriggerName = ''trigger'', TriggerLabels = Map.empty, TriggerAnnotations = Map.empty,
      TriggerDeleting = False,
      Spec = \<lparr>OneForEvent = False, EventSourceName = ''es'', OtherSpecFields = ''tier:100''\<rparr>,
      TriggerStatus = \<lparr>MatchingClusterRefs = matching, DestinationMatchingClusterRefs = [],
                       StatusClusterInfo = entries\<rparr>\<rparr>"

text \<open>The digest \<open>exampleReconciler\<close> computes for \<open>exampleTrigger\<close>.\<close>

definition exampleHash :: string where
  "exampleHash = ''digest of es/tier:100''"

definition exampleFeature :: feature where
  "exampleFeature = \<lparr>featureId = ''EventTrigger''\<rparr>"

definition exampleInfo :: "ObjectReference \<Rightarrow> string option \<Rightarrow> SveltosFeatureStatus \<Rightarrow> ClusterInfo" where
  "exampleInfo c h s = \<lparr>Cluster = c, Hash = h, Status = s, FailureMessage = None\<rparr>"

definition exampleStart :: "EventTrigger \<Rightarrow> exampleWorld" where
  "exampleStart e = \<lparr>queued = [], storedTrigger = e, pendingConflicts = 0\<rparr>"

definition resultFor :: "ResultStatus \<Rightarrow> error option \<Rightarrow> DeployKey \<Rightarrow> Result" where
  "resultFor s err k = \<lparr>ResultStatus = s, Err = err\<rparr>"

text \<open>
  An index for concrete runs: a selector is the value it asks of the label \<open>env\<close>, and
  EventTrigger \<open>t1\<close> both tracked every cluster before and selects \<open>env = prod\<close>.
\<close>

definition exampleEventTriggerRef :: "string \<Rightarrow> ObjectReference" where
  "exampleEventTriggerRef n =
     \<lparr>Kind = ''EventTrigger'', Namespace = [], Name = n, UID = [],
      APIVersion = ''lib.projectsveltos.io/v1alpha1'', ResourceVersion = [], FieldPath = []\<rparr>"

definition exampleIndex :: "string EventTriggerIndex" where
  "exampleIndex =
     \<lparr>ClusterLabels = Map.empty,
      EventTriggers = [(exampleEventTriggerRef ''t1'', ''prod''), (exampleEventTriggerRef ''t2'', ''dev'')],
      getEventSourceMapForEntry = (\<lambda>k. [exampleEventTriggerRef ''t1'', exampleEventTriggerRef ''t2'']),
      getClusterMapForEntry = (\<lambda>k. [exampleEventTriggerRef ''t1'']),
      getReferenceMapForEntry = (\<lambda>k. [exampleEventTriggerRef ''t2'']),
      labelsParse = (\<lambda>sel. if sel = [] then None else Some sel),
      Matches = (\<lambda>p ls. ls ''env'' = Some p)\<rparr>"

definition exampleClusterObject :: ClusterObject where
  "exampleClusterObject =
     \<lparr>coAPIVersion = ''lib.projectsveltos.io/v1alpha1'', coKind = ''SveltosCluster'',
      coNamespace = ''default'', coName = ''c1'', coLabels = [''env'' \<mapsto> ''prod'']\<rparr>"

text \<open>
  A managed cluster for concrete runs: the helpers look for an owner of kind EventTrigger
  with the name of the trigger; \<open>listFails\<close> makes the listing of EventReports fail.
\<close>

definition exampleAccess :: "bool \<Rightarrow> ClusterAccess" where
  "exampleAccess listFails =
     \<lparr>GetKubernetesClientErr = None,
      ListEventSourcesErr = None,
      UpdateEventSourceErr = (\<lambda>es. None),
      DeleteEventSourceErr = (\<lambda>es. None),
      ListEventReportsErr = (if listFails then Some (Error ''cannot list EventReports'') else None),
      DeleteEventReportErr = (\<lambda>er. None),
      IsOwnedByObject = (\<lambda>es t. list_ex (\<lambda>ref. ownerKind ref = ''EventTrigger'' \<and>
                                               ownerName ref = TriggerName t) (esOwnerReferences es)),
      RemoveOwnerReference = (\<lambda>es t. es\<lparr>esOwnerReferences :=
                                filter (\<lambda>ref. \<not> (ownerKind ref = ''EventTrigger'' \<and>
                                                 ownerName ref = TriggerName t)) (esOwnerReferences es)\<rparr>)\<rparr>"

definition exampleEventSource :: "string \<Rightarrow> string list \<Rightarrow> EventSource" where
  "exampleEventSource n owners =
     \<lparr>esName = n,
      esOwnerReferences = map (\<lambda>t. \<lparr>ownerKind = ''EventTrigger'', ownerName = t\<rparr>) owners,
      esSpec = \<lparr>CollectResources = False, ResourceSelectors = []\<rparr>\<rparr>"

definition exampleEventReport :: "string \<Rightarrow> string \<Rightarrow> EventReport" where
  "exampleEventReport n eventSource =
     \<lparr>erNamespace = ''default'', erName = n,
      erLabels = [EventReportClusterNameLabel \<mapsto> ''c1'',
                  EventReportClusterTypeLabel \<mapsto> ''sveltos'',
                  EventSourceNameLabel \<mapsto> eventSource],
      erDeleting = False,
      erSpec = \<lparr>erClusterNamespace = ''default'', erClusterName = ''c1'',
                erClusterType = ClusterTypeSveltos, erEventSourceName = eventSource,
                MatchingResources = [], Resources = []\<rparr>\<rparr>"

text \<open>
  A management cluster client for concrete runs: nothing fails; a document parses to a
  Service of namespace \<open>app\<close> named by its text; the random strings repeat one letter,
  \<open>a\<close> for the first draw, \<open>b\<close> for the second, \<open>c\<close> afterwards; the instantiated
  template resource references show the data they were instantiated with; no chart,
  kustomization or policy is referenced, and the destination selector is empty.
\<close>

definition exampleProfile :: "string \<Rightarrow> (string \<times> string) list \<Rightarrow> ClusterProfile" where
  "exampleProfile n ls =
     \<lparr>cpName = n, cpLabels = map_of ls, cpCopiedFields = [], cpTemplateResourceRefs = [],
      cpClusterRefs = [], cpClusterSelector = [], cpHelmCharts = [],
      cpKustomizationRefs = [], cpPolicyRefs = []\<rparr>"









text \<open>A generator for concrete runs: a counter, and strings of the letter \<open>x\<close>.\<close>

definition exampleRandomString :: "nat \<Rightarrow> nat \<Rightarrow> string \<times> nat" where
  "exampleRandomString n g = (replicate n CHR ''x'', Suc g)"

text \<open>
  A reconciler whose fetch returns a ConfigMap and the EventSource, and whose rendering
  of a map shows the values of the keys \<open>a\<close> and \<open>b\<close>.
\<close>

definition exampleShow :: "(string \<rightharpoonup> string) \<Rightarrow> string" where
  "exampleShow m =
     (case m ''a'' of None \<Rightarrow> ''a:-'' | Some v \<Rightarrow> ''a:'' @ v) @
     (case m ''b'' of None \<Rightarrow> '',b:-'' | Some v \<Rightarrow> '',b:'' @ v)"

definition exampleHashReconciler ::
  "(ObjectReference \<Rightarrow> ReferencedObject list) \<Rightarrow> (string, exampleWorld) Reconciler" where
  "exampleHashReconciler fetched =
     (exampleReconciler (resultFor Unavailable None))
       \<lparr>fetchReferencedResources := (\<lambda>e c. Inr (fetched c)),
        renderStringMap := exampleShow, renderBytesMap := exampleShow\<rparr>"

text \<open>For cluster \<open>c1\<close> the ConfigMap is named \<open>cm-one\<close>, for any other \<open>cm-two\<close>.\<close>

definition exampleFetched :: "ObjectReference \<Rightarrow> ReferencedObject list" where
  "exampleFetched c =
     [ConfigMapObject
        \<lparr>cmNamespace = ''default'', cmName = (if Name c = ''c1'' then ''cm-one'' else ''cm-two''),
         cmLabels = Map.empty, cmData = [''a'' \<mapsto> ''x'']\<rparr>,
      EventSourceObject
        \<lparr>esName = ''es'', esOwnerReferences = [],
         esSpec = \<lparr>CollectResources = True, ResourceSelectors = ''Service''\<rparr>\<rparr>]"

text \<open>\<open>exampleTrigger\<close> with the given name and labels.\<close>

definition exampleLabelledTrigger :: "string \<Rightarrow> (string \<rightharpoonup> string) \<Rightarrow> ClusterInfo list \<Rightarrow> EventTrigger" where
  "exampleLabelledTrigger n ls entries =
     (exampleTrigger [] entries)\<lparr>TriggerName := n, TriggerLabels := ls\<rparr>"

section \<open>Verified properties\<close>


subsection \<open>Facts about the per-cluster functions and the loop\<close>

lemma setClusterInfoAt_same [simp]:
  "setClusterInfoAt e i (infos e ! i) = e"
  by (simp add: setClusterInfoAt_def)

lemma setClusterInfoAt_simps [simp]:
  "infos (setClusterInfoAt e i ci) = (infos e)[i := ci]"
  "TriggerName (setClusterInfoAt e i ci) = TriggerName e"
  "Spec (setClusterInfoAt e i ci) = Spec e"
  "TriggerLabels (setClusterInfoAt e i ci) = TriggerLabels e"
  "TriggerAnnotations (setClusterInfoAt e i ci) = TriggerAnnotations e"
  "MatchingClusterRefs (TriggerStatus (setClusterInfoAt e i ci)) = MatchingClusterRefs (TriggerStatus e)"
  by (simp_all add: setClusterInfoAt_def)

lemma HasPaused_setClusterInfoAt [simp]:
  "HasPaused (setClusterInfoAt e i ci) = HasPaused e"
  by (simp add: HasPaused_def)

lemma isPaused_setClusterInfoAt [simp]:
  "isPaused r c (setClusterInfoAt e i ci) = isPaused r c e"
  by (simp add: isPaused_def split: sum.splits)

lemma canProceed_setClusterInfoAt [simp]:
  "canProceed r (setClusterInfoAt e i ci) c = canProceed r e c"
  by (simp add: canProceed_def)

lemma isClusterStillMatching_setClusterInfoAt [simp]:
  "isClusterStillMatching (setClusterInfoAt e i ci) c = isClusterStillMatching e c"
  by (simp add: isClusterStillMatching_def)

lemma removeEventTrigger_Some_cluster:
  "removeEventTrigger r e c f w = Returned ((Some ci, err), w') \<Longrightarrow> Cluster ci = c"
  by (auto simp: removeEventTrigger_def Let_def split: if_splits outcome.splits prod.splits option.splits)

lemma processEventTriggerDeploy_Some_cluster:
  "processEventTriggerDeploy r e c f h w = Returned ((Some ci, err), w') \<Longrightarrow> Cluster ci = c"
  by (auto simp: processEventTriggerDeploy_def processEventTriggerTail_def Let_def
           split: if_splits outcome.splits prod.splits option.splits)

lemma processEventTrigger_Some_cluster:
  "processEventTrigger r e c f w = Returned ((Some ci, err), w') \<Longrightarrow> Cluster ci = c"
  by (auto simp: processEventTrigger_def
           dest: removeEventTrigger_Some_cluster processEventTriggerDeploy_Some_cluster
           split: if_splits outcome.splits sum.splits)






lemma step_foreign:
  assumes "i < length (infos (resource st))"
      and "isClusterAShardMatch r (infos (resource st) ! i) = Inr False"
  shows "deployEventTriggerStep r f i st =
           Returned (None, st\<lparr>allProcessed := (allProcessed st \<and> Status (infos (resource st) ! i) = SveltosStatusProvisioned),
                               resource := setClusterInfoAt (resource st) i (substituteEmptyHash (infos (resource st) ! i))\<rparr>)"
  using assms by (simp add: deployEventTriggerStep_def Let_def substituteEmptyHash_def)

lemma step_in_range:
  "deployEventTriggerStep r f i st = Returned (res, st') \<Longrightarrow> i < length (infos (resource st))"
  by (auto simp: deployEventTriggerStep_def split: if_splits)

lemma step_resource:
  assumes "deployEventTriggerStep r f i st = Returned (res, st')"
  shows "\<exists>ci. resource st' = setClusterInfoAt (resource st) i ci \<and>
              Cluster ci = Cluster (infos (resource st) ! i)"
proof (cases "isClusterAShardMatch r (infos (resource st) ! i)")
  case (Inl err)
  with assms have "st' = st"
    by (auto simp: deployEventTriggerStep_def Let_def split: if_splits)
  then show ?thesis
    by (intro exI [of _ "infos (resource st) ! i"]) simp
next
  case (Inr shardMatch)
  have range: "i < length (infos (resource st))" using assms by (rule step_in_range)
  show ?thesis
  proof (cases shardMatch)
    case False
    with Inr range assms have "resource st' = setClusterInfoAt (resource st) i (substituteEmptyHash (infos (resource st) ! i))"
      by (auto simp: step_foreign)
    then show ?thesis
      by (intro exI [of _ "substituteEmptyHash (infos (resource st) ! i)"])
         (simp add: substituteEmptyHash_def)
  next
    case True
    with Inr range assms obtain clusterInfo err w' where
      p: "processEventTrigger r (resource st) (Cluster (infos (resource st) ! i)) f (world st) =
            Returned ((clusterInfo, err), w')"
      by (auto simp: deployEventTriggerStep_def Let_def split: outcome.splits)
    show ?thesis
    proof (cases clusterInfo)
      case None
      with p True Inr range assms have "resource st' = resource st"
        by (auto simp: deployEventTriggerStep_def Let_def)
      then show ?thesis
        by (intro exI [of _ "infos (resource st) ! i"]) simp
    next
      case (Some ci)
      with p True Inr range assms have "resource st' = setClusterInfoAt (resource st) i ci"
        by (auto simp: deployEventTriggerStep_def Let_def)
      moreover from p Some have "Cluster ci = Cluster (infos (resource st) ! i)"
        by (auto dest: processEventTrigger_Some_cluster)
      ultimately show ?thesis by blast
    qed
  qed
qed

lemma step_monotone:
  assumes "deployEventTriggerStep r f i st = Returned (res, st')"
  shows "(errorSeen st \<noteq> None \<longrightarrow> errorSeen st' \<noteq> None) \<and> (allProcessed st' \<longrightarrow> allProcessed st)"
  using assms
  by (auto simp: deployEventTriggerStep_def Let_def
           split: if_splits sum.splits outcome.splits option.splits prod.splits)



lemma sameClusters_refl [simp]: "sameClusters e e"
  by (auto simp: sameClusters_def intro: exI [of _ "infos e"])

lemma sameClusters_trans: "sameClusters e e' \<Longrightarrow> sameClusters e' e'' \<Longrightarrow> sameClusters e e''"
  by (auto simp: sameClusters_def)

lemma sameClusters_setClusterInfoAt:
  assumes "i < length (infos e)" and "Cluster ci = Cluster (infos e ! i)"
  shows "sameClusters e (setClusterInfoAt e i ci)"
proof -
  have "map Cluster ((infos e)[i := ci]) = map Cluster (infos e)"
    using assms by (simp add: map_update list_update_same_conv)
  then show ?thesis
    by (auto simp: sameClusters_def setClusterInfoAt_def)
qed

lemma sameClusters_length: "sameClusters e e' \<Longrightarrow> length (infos e') = length (infos e)"
  by (auto simp: sameClusters_def dest: map_eq_imp_length_eq)




lemma step_sameClusters:
  assumes "deployEventTriggerStep r f i st = Returned (res, st')"
  shows "sameClusters (resource st) (resource st')"
  using step_resource [OF assms] step_in_range [OF assms]
  by (auto intro: sameClusters_setClusterInfoAt)

lemma step_frame:
  assumes "deployEventTriggerStep r f i st = Returned (res, st')" and "j \<noteq> i"
  shows "infos (resource st') ! j = infos (resource st) ! j"
  using step_resource [OF assms(1)] assms(2) by auto

lemma loop_frame:
  "deployEventTriggerLoop r f ixs st = Returned (res, st') \<Longrightarrow>
     sameClusters (resource st) (resource st') \<and>
     (\<forall>j. j \<notin> set ixs \<longrightarrow> infos (resource st') ! j = infos (resource st) ! j) \<and>
     (errorSeen st \<noteq> None \<longrightarrow> errorSeen st' \<noteq> None) \<and>
     (allProcessed st' \<longrightarrow> allProcessed st)"
proof (induction ixs arbitrary: st)
  case Nil
  then show ?case by simp
next
  case (Cons i rest)
  from Cons.prems obtain res1 st1 where
    s: "deployEventTriggerStep r f i st = Returned (res1, st1)"
    by (auto split: outcome.splits)
  note sc = step_sameClusters [OF s] and mono = step_monotone [OF s]
  show ?case
  proof (cases res1)
    case (Some err)
    with s Cons.prems have "st' = st1" by simp
    with sc mono s show ?thesis by (auto dest: step_frame)
  next
    case None
    with s Cons.prems have l: "deployEventTriggerLoop r f rest st1 = Returned (res, st')" by simp
    from Cons.IH [OF l] sc mono s show ?thesis
      by (auto intro: sameClusters_trans dest: step_frame)
  qed
qed


lemma isClusterAShardMatch_cong:
  "Cluster c' = Cluster c \<Longrightarrow> isClusterAShardMatch r c' = isClusterAShardMatch r c"
  by (simp add: isClusterAShardMatch_def)

lemma loop_foreign:
  "deployEventTriggerLoop r f ixs st = Returned (res, st') \<Longrightarrow> distinct ixs \<Longrightarrow> i \<in> set ixs \<Longrightarrow>
   isClusterAShardMatch r (infos (resource st) ! i) = Inr False \<Longrightarrow>
   (infos (resource st') ! i = infos (resource st) ! i \<or>
    infos (resource st') ! i = substituteEmptyHash (infos (resource st) ! i)) \<and>
   (res = None \<longrightarrow>
      infos (resource st') ! i = substituteEmptyHash (infos (resource st) ! i) \<and>
      (allProcessed st' \<longrightarrow> Status (infos (resource st) ! i) = SveltosStatusProvisioned))"
proof (induction ixs arbitrary: st)
  case Nil
  then show ?case by simp
next
  case (Cons k rest)
  from Cons.prems(1) obtain res1 st1 where
    s: "deployEventTriggerStep r f k st = Returned (res1, st1)"
    by (auto split: outcome.splits)
  have range: "k < length (infos (resource st))" using s by (rule step_in_range)
  show ?case
  proof (cases "k = i")
    case True
    with Cons.prems(4) range s have
      r1: "res1 = None" and
      st1: "st1 = st\<lparr>allProcessed := (allProcessed st \<and> Status (infos (resource st) ! i) = SveltosStatusProvisioned),
                      resource := setClusterInfoAt (resource st) i (substituteEmptyHash (infos (resource st) ! i))\<rparr>"
      by (auto simp: step_foreign)
    from r1 s Cons.prems(1) have l: "deployEventTriggerLoop r f rest st1 = Returned (res, st')" by simp
    from Cons.prems(2) True have "i \<notin> set rest" by simp
    with loop_frame [OF l] st1 range True show ?thesis by auto
  next
    case False
    with Cons.prems have inrest: "i \<in> set rest" and d: "distinct rest" by simp_all
    have same: "infos (resource st1) ! i = infos (resource st) ! i"
      using step_frame [OF s] False by simp
    show ?thesis
    proof (cases res1)
      case (Some err)
      with s Cons.prems(1) have "st' = st1" "res = Some err" by simp_all
      with same show ?thesis by simp
    next
      case None
      with s Cons.prems(1) have l: "deployEventTriggerLoop r f rest st1 = Returned (res, st')" by simp
      from Cons.IH [OF l d inrest] Cons.prems(4) same show ?thesis by simp
    qed
  qed
qed




lemma mset_swap_remove:
  assumes "i < length s"
  shows "mset (butlast (s[i := last s])) = mset s - {#s ! i#}"
proof -
  from assms have ne: "s \<noteq> []" by auto
  then obtain xs x where s: "s = xs @ [x]" by (metis append_butlast_last_id)
  show ?thesis
  proof (cases "i < length xs")
    case True
    then have "butlast (s[i := last s]) = xs[i := x]"
      by (simp add: s list_update_append)
    moreover have "mset (xs[i := x]) = mset xs - {#xs ! i#} + {#x#}"
      using True by (simp add: mset_update)
    moreover have "s ! i = xs ! i" using True by (simp add: s nth_append)
    moreover have "xs ! i \<in># mset xs" using True by simp
    ultimately show ?thesis by (simp add: s)
  next
    case False
    with assms have "i = length xs" by (simp add: s)
    then show ?thesis by (simp add: s)
  qed
qed

lemma firstClusterInfoIndex_Some:
  "firstClusterInfoIndex r xs ns n t k = Some i \<Longrightarrow>
     k \<le> i \<and> i - k < length xs \<and> isClusterInfoForCluster r (xs ! (i - k)) ns n t \<and>
     (\<forall>j < i - k. \<not> isClusterInfoForCluster r (xs ! j) ns n t)"
proof (induction xs arbitrary: k)
  case Nil
  then show ?case by simp
next
  case (Cons c rest)
  show ?case
  proof (cases "isClusterInfoForCluster r c ns n t")
    case True
    with Cons.prems show ?thesis by simp
  next
    case False
    with Cons.prems have "firstClusterInfoIndex r rest ns n t (Suc k) = Some i" by simp
    from Cons.IH [OF this] have
      a: "Suc k \<le> i" and b: "i - Suc k < length rest" and
      c: "isClusterInfoForCluster r (rest ! (i - Suc k)) ns n t" and
      d: "\<forall>j < i - Suc k. \<not> isClusterInfoForCluster r (rest ! j) ns n t"
      by simp_all
    from a have e: "i - k = Suc (i - Suc k)" by simp
    have "\<forall>j < i - k. \<not> isClusterInfoForCluster r ((c # rest) ! j) ns n t"
    proof (intro allI impI)
      fix j assume "j < i - k"
      with e d False show "\<not> isClusterInfoForCluster r ((c # rest) ! j) ns n t"
        by (cases j) simp_all
    qed
    with a b c e show ?thesis by simp
  qed
qed

lemma firstClusterInfoIndex_None:
  "firstClusterInfoIndex r xs ns n t k = None \<longleftrightarrow>
     (\<forall>c \<in> set xs. \<not> isClusterInfoForCluster r c ns n t)"
  by (induction xs arbitrary: k) simp_all

lemma RetryOnConflict_invariant:
  assumes step: "\<And>w res w'. P w \<Longrightarrow> fn w = Returned (res, w') \<Longrightarrow>
                   (res = None \<and> Q w') \<or> (res \<noteq> None \<and> P w')"
      and nopanic: "\<And>w. P w \<Longrightarrow> fn w \<noteq> Panicked"
      and "P w" and "0 < n"
  shows "\<exists>res w'. RetryOnConflict n fn w = Returned (res, w') \<and>
           ((res = None \<and> Q w') \<or> (res \<noteq> None \<and> P w'))"
  using assms(3) assms(4)
proof (induction n arbitrary: w)
  case 0
  then show ?case by simp
next
  case (Suc n)
  from nopanic [OF Suc.prems(1)] obtain res w1 where f: "fn w = Returned (res, w1)"
    by (cases "fn w") auto
  from step [OF Suc.prems(1) f] show ?case
  proof
    assume "res = None \<and> Q w1"
    with f show ?thesis by simp
  next
    assume a: "res \<noteq> None \<and> P w1"
    then obtain err where e: "res = Some err" by auto
    show ?thesis
    proof (cases "IsConflict err \<and> n \<noteq> 0")
      case True
      with f e have "RetryOnConflict (Suc n) fn w = RetryOnConflict n fn w1" by simp
      with Suc.IH [of w1] a True show ?thesis by simp
    next
      case False
      with f e a show ?thesis by auto
    qed
  qed
qed

subsection \<open>The claims about the state machine\<close>

lemmas example_defs =
  exampleReconciler_def exampleCluster_def exampleTrigger_def exampleHash_def
  exampleFeature_def exampleInfo_def exampleStart_def resultFor_def

lemmas state_machine_defs =
  processEventTrigger_def processEventTriggerDeploy_def processEventTriggerTail_def
  removeEventTrigger_def eventTriggerHash_def canProceed_def isPaused_def HasPaused_def
  isClusterStillMatching_def getClusterHashAndStatus_def isClusterInfoForCluster_def
  isClusterEntryRemoved_def deployKey_def isClusterAShardMatch_def

text \<open>
  C1. Deploy path, stored hash equal to the fingerprint, dispatcher result Failed with an
  error: the claim asks for a ClusterInfo with status Failed carrying the error text, and
  for an error. Run on such an input, \<open>processEventTrigger\<close> builds that ClusterInfo but
  returns it only for Provisioned and Provisioning; for Failed it falls through to the
  final return, whose ClusterInfo has status Failed, a nil failure message, and a nil error.
\<close>

theorem processEventTrigger_failed_result_drops_message:
  "processEventTrigger
     (exampleReconciler (resultFor Failed (Some (Error ''helm install failed''))))
     (exampleTrigger [exampleCluster ''default'' ''c1'']
        [exampleInfo (exampleCluster ''default'' ''c1'') (Some exampleHash) SveltosStatusProvisioning])
     (exampleCluster ''default'' ''c1'') exampleFeature
     (exampleStart (exampleTrigger [] []))
   = Returned
       ((Some \<lparr>Cluster = exampleCluster ''default'' ''c1'', Hash = Some exampleHash,
               Status = SveltosStatusFailed, FailureMessage = None\<rparr>,
         None),
        exampleStart (exampleTrigger [] []))"
  by (simp add: state_machine_defs example_defs Let_def)

text \<open>
  C2 (as amended). For a cluster that still matches, whose fingerprint was computed, that
  may proceed and has no cleanup in progress, \<open>processEventTrigger\<close> decides as follows.
  When the stored hash differs from the fingerprint, or the hash is unchanged, the
  dispatcher has no result and the recorded status is not Provisioned, it submits
  \<open>processEventTriggerForCluster\<close> under the deploy key, and once the dispatcher accepts
  it the returned ClusterInfo has status Provisioning, the new fingerprint and no failure
  message. When the hash is unchanged, the dispatcher has no result and the recorded
  status is Provisioned, the returned ClusterInfo keeps status Provisioned, there is no
  error, and the state left behind is the one after \<open>CleanupEntries\<close>: \<open>Deploy\<close> is not
  called, so nothing is submitted.
\<close>

theorem processEventTrigger_deploy_decision:
  assumes "isClusterStillMatching e cluster"
      and "eventTriggerHash r e cluster = Returned (Inr currentHash)"
      and "canProceed r e cluster = Inr True"
      and "\<not> IsInProgress r (deployKey r e cluster f True)
               (CleanupEntries r (deployKey r e cluster f True) w)"
      and "getClusterHashAndStatus r e cluster = (hash, currentStatus)"
  shows "(hash \<noteq> Some currentHash \<or>
          (ResultStatus (GetResult r (deployKey r e cluster f False)
                           (CleanupEntries r (deployKey r e cluster f True) w)) = Unavailable \<and>
           currentStatus \<noteq> Some SveltosStatusProvisioned) \<longrightarrow>
          processEventTrigger r e cluster f w =
            (case Deploy r (deployKey r e cluster f False) processEventTriggerForCluster
                    (CleanupEntries r (deployKey r e cluster f True) w) of
               (Some err, w') \<Rightarrow> Returned ((None, Some err), w')
             | (None, w') \<Rightarrow>
                 Returned ((Some \<lparr>Cluster = cluster, Hash = Some currentHash,
                                  Status = SveltosStatusProvisioning, FailureMessage = None\<rparr>,
                            None), w')))
       \<and> (hash = Some currentHash \<and>
          ResultStatus (GetResult r (deployKey r e cluster f False)
                          (CleanupEntries r (deployKey r e cluster f True) w)) = Unavailable \<and>
          currentStatus = Some SveltosStatusProvisioned \<longrightarrow>
          processEventTrigger r e cluster f w =
            Returned ((Some \<lparr>Cluster = cluster, Hash = Some currentHash,
                             Status = SveltosStatusProvisioned, FailureMessage = None\<rparr>,
                       None),
                      CleanupEntries r (deployKey r e cluster f True) w))"
proof (intro conjI impI)
  assume "hash \<noteq> Some currentHash \<or>
          (ResultStatus (GetResult r (deployKey r e cluster f False)
                           (CleanupEntries r (deployKey r e cluster f True) w)) = Unavailable \<and>
           currentStatus \<noteq> Some SveltosStatusProvisioned)"
  with assms
  show "processEventTrigger r e cluster f w =
            (case Deploy r (deployKey r e cluster f False) processEventTriggerForCluster
                    (CleanupEntries r (deployKey r e cluster f True) w) of
               (Some err, w') \<Rightarrow> Returned ((None, Some err), w')
             | (None, w') \<Rightarrow>
                 Returned ((Some \<lparr>Cluster = cluster, Hash = Some currentHash,
                                  Status = SveltosStatusProvisioning, FailureMessage = None\<rparr>,
                            None), w'))"
    by (auto simp: processEventTrigger_def processEventTriggerDeploy_def
                   processEventTriggerTail_def Let_def
             split: prod.splits option.splits)
next
  assume "hash = Some currentHash \<and>
          ResultStatus (GetResult r (deployKey r e cluster f False)
                          (CleanupEntries r (deployKey r e cluster f True) w)) = Unavailable \<and>
          currentStatus = Some SveltosStatusProvisioned"
  with assms
  show "processEventTrigger r e cluster f w =
            Returned ((Some \<lparr>Cluster = cluster, Hash = Some currentHash,
                             Status = SveltosStatusProvisioned, FailureMessage = None\<rparr>,
                       None),
                      CleanupEntries r (deployKey r e cluster f True) w)"
    by (auto simp: processEventTrigger_def processEventTriggerDeploy_def
                   processEventTriggerTail_def Let_def
             split: prod.splits option.splits)
qed

theorem processEventTrigger_deploy_decision_witness:
  "processEventTrigger (exampleReconciler (resultFor Unavailable None))
     (exampleTrigger [exampleCluster ''default'' ''c1'']
        [exampleInfo (exampleCluster ''default'' ''c1'') (Some ''digest of es/tier:50'') SveltosStatusProvisioned])
     (exampleCluster ''default'' ''c1'') exampleFeature
     (exampleStart (exampleTrigger [] []))
   = Returned
       ((Some \<lparr>Cluster = exampleCluster ''default'' ''c1'', Hash = Some exampleHash,
               Status = SveltosStatusProvisioning, FailureMessage = None\<rparr>,
         None),
        \<lparr>queued = [(\<lparr>keyClusterNamespace = ''default'', keyClusterName = ''c1'',
                      keyApplicant = ''trigger'', keyFeatureID = ''EventTrigger'',
                      keyClusterType = ClusterTypeSveltos, keyCleanup = False\<rparr>,
                    processEventTriggerForCluster)],
         storedTrigger = exampleTrigger [] [], pendingConflicts = 0\<rparr>)
   \<and> processEventTrigger (exampleReconciler (resultFor Unavailable None))
     (exampleTrigger [exampleCluster ''prod'' ''c2'']
        [exampleInfo (exampleCluster ''prod'' ''c2'') (Some exampleHash) SveltosStatusProvisioned])
     (exampleCluster ''prod'' ''c2'') exampleFeature
     (exampleStart (exampleTrigger [] []))
   = Returned
       ((Some \<lparr>Cluster = exampleCluster ''prod'' ''c2'', Hash = Some exampleHash,
               Status = SveltosStatusProvisioned, FailureMessage = None\<rparr>,
         None),
        exampleStart (exampleTrigger [] []))"
  using processEventTrigger_deploy_decision
    [of "exampleTrigger [exampleCluster ''default'' ''c1'']
           [exampleInfo (exampleCluster ''default'' ''c1'') (Some ''digest of es/tier:50'') SveltosStatusProvisioned]"
        "exampleCluster ''default'' ''c1''"
        "exampleReconciler (resultFor Unavailable None)"
        exampleHash exampleFeature "exampleStart (exampleTrigger [] [])"
        "Some ''digest of es/tier:50''" "Some SveltosStatusProvisioned"]
    processEventTrigger_deploy_decision
    [of "exampleTrigger [exampleCluster ''prod'' ''c2'']
           [exampleInfo (exampleCluster ''prod'' ''c2'') (Some exampleHash) SveltosStatusProvisioned]"
        "exampleCluster ''prod'' ''c2''"
        "exampleReconciler (resultFor Unavailable None)"
        exampleHash exampleFeature "exampleStart (exampleTrigger [] [])"
        "Some exampleHash" "Some SveltosStatusProvisioned"]
  by (simp add: state_machine_defs example_defs)

text \<open>
  The claim as first stated asks for a submission also when the recorded status is
  Provisioned. Run with an unchanged hash, no dispatcher result and a recorded status
  Provisioned, the function keeps Provisioned and the queue stays empty.
\<close>

theorem processEventTrigger_unavailable_provisioned_counterexample:
  "processEventTrigger (exampleReconciler (resultFor Unavailable None))
     (exampleTrigger [exampleCluster ''default'' ''c1'']
        [exampleInfo (exampleCluster ''default'' ''c1'') (Some exampleHash) SveltosStatusProvisioned])
     (exampleCluster ''default'' ''c1'') exampleFeature
     (exampleStart (exampleTrigger [] []))
   = Returned
       ((Some \<lparr>Cluster = exampleCluster ''default'' ''c1'', Hash = Some exampleHash,
               Status = SveltosStatusProvisioned, FailureMessage = None\<rparr>,
         None),
        \<lparr>queued = [], storedTrigger = exampleTrigger [] [], pendingConflicts = 0\<rparr>)"
  by (simp add: state_machine_defs example_defs Let_def)


lemma deployEventTrigger_loop:
  assumes "deployEventTrigger r e f w = Returned (err, e', w')"
  shows "\<exists>res st'.
    deployEventTriggerLoop r f [0 ..< length (infos e)]
       \<lparr>resource = e, errorSeen = None, allProcessed = True, world = w\<rparr> = Returned (res, st')
    \<and> resource st' = e' \<and> world st' = w'
    \<and> (err = None \<longleftrightarrow> res = None \<and> errorSeen st' = None \<and> allProcessed st')"
proof (cases "deployEventTriggerLoop r f [0 ..< length (infos e)]
       \<lparr>resource = e, errorSeen = None, allProcessed = True, world = w\<rparr>")
  case Panicked
  with assms show ?thesis by (simp add: deployEventTrigger_def)
next
  case (Returned p)
  obtain res st' where p: "p = (res, st')" by (cases p)
  show ?thesis
  proof (cases res)
    case (Some x)
    with Returned p assms show ?thesis by (auto simp: deployEventTrigger_def)
  next
    case None
    note loop = this
    show ?thesis
    proof (cases "errorSeen st'")
      case (Some x)
      with loop Returned p assms show ?thesis by (auto simp: deployEventTrigger_def)
    next
      case None
      with loop Returned p assms show ?thesis
        by (cases "allProcessed st'") (auto simp: deployEventTrigger_def)
    qed
  qed
qed




lemma emptyHash_value: "emptyHash = ''ZW1wdHk=''"
  by (simp add: emptyHash_def base64Letter_def encodeStd_def)

text \<open>
  C7. For an entry whose cluster belongs to another shard, the iteration touches neither
  the dispatcher nor the stored EventTrigger nor \<open>errorSeen\<close>; it keeps the entry,
  writing the base64 text of \<open>empty\<close> (\<open>ZW1wdHk=\<close>) as its hash only when the hash is
  nil; and it clears \<open>allProcessed\<close> unless the status is Provisioned. So whatever
  \<open>deployEventTrigger\<close> returns, the entry has the cluster, status and failure message
  it had, its hash changed at most from nil to that text, and success implies that its
  status is Provisioned.
\<close>

theorem deployEventTrigger_other_shard:
  assumes "i < length (infos (resource st))"
      and "isClusterAShardMatch r (infos (resource st) ! i) = Inr False"
  shows "deployEventTriggerStep r f i st =
           Returned (None,
             st\<lparr>allProcessed :=
                  (allProcessed st \<and> Status (infos (resource st) ! i) = SveltosStatusProvisioned),
                resource :=
                  setClusterInfoAt (resource st) i
                    (if Hash (infos (resource st) ! i) = None
                     then (infos (resource st) ! i)\<lparr>Hash := Some ''ZW1wdHk=''\<rparr>
                     else infos (resource st) ! i)\<rparr>)
         \<and> (\<forall>w err e' w'.
               resource st = e \<and> deployEventTrigger r e f w = Returned (err, e', w') \<longrightarrow>
                 Status (infos e' ! i) = Status (infos e ! i) \<and>
                 Cluster (infos e' ! i) = Cluster (infos e ! i) \<and>
                 FailureMessage (infos e' ! i) = FailureMessage (infos e ! i) \<and>
                 (Hash (infos e' ! i) = Hash (infos e ! i) \<or>
                  Hash (infos e ! i) = None \<and> Hash (infos e' ! i) = Some ''ZW1wdHk='') \<and>
                 (err = None \<longrightarrow>
                    Status (infos e ! i) = SveltosStatusProvisioned \<and>
                    Hash (infos e' ! i) \<noteq> None))"
proof (intro conjI allI impI)
  show "deployEventTriggerStep r f i st =
           Returned (None,
             st\<lparr>allProcessed :=
                  (allProcessed st \<and> Status (infos (resource st) ! i) = SveltosStatusProvisioned),
                resource :=
                  setClusterInfoAt (resource st) i
                    (if Hash (infos (resource st) ! i) = None
                     then (infos (resource st) ! i)\<lparr>Hash := Some ''ZW1wdHk=''\<rparr>
                     else infos (resource st) ! i)\<rparr>)"
    using step_foreign [OF assms, of f]
    by (simp add: substituteEmptyHash_def emptyHash_value)
next
  fix w err e' w'
  assume a: "resource st = e \<and> deployEventTrigger r e f w = Returned (err, e', w')"
  then obtain res st' where
    l: "deployEventTriggerLoop r f [0 ..< length (infos e)]
          \<lparr>resource = e, errorSeen = None, allProcessed = True, world = w\<rparr> = Returned (res, st')"
    and e': "resource st' = e'"
    and ok: "err = None \<longleftrightarrow> res = None \<and> errorSeen st' = None \<and> allProcessed st'"
    using deployEventTrigger_loop [of r e f w err e' w'] by auto
  from a assms have i: "i \<in> set [0 ..< length (infos e)]"
    and far: "isClusterAShardMatch r (infos e ! i) = Inr False" by auto
  have fact: "(infos e' ! i = infos e ! i \<or> infos e' ! i = substituteEmptyHash (infos e ! i)) \<and>
     (res = None \<longrightarrow> infos e' ! i = substituteEmptyHash (infos e ! i) \<and>
        (allProcessed st' \<longrightarrow> Status (infos e ! i) = SveltosStatusProvisioned))"
    using loop_foreign [OF l _ i] far e' by simp
  from fact show "Status (infos e' ! i) = Status (infos e ! i)"
    by (auto simp: substituteEmptyHash_def split: if_splits)
  from fact show "Cluster (infos e' ! i) = Cluster (infos e ! i)"
    by (auto simp: substituteEmptyHash_def split: if_splits)
  from fact show "FailureMessage (infos e' ! i) = FailureMessage (infos e ! i)"
    by (auto simp: substituteEmptyHash_def split: if_splits)
  from fact show "Hash (infos e' ! i) = Hash (infos e ! i) \<or>
                  Hash (infos e ! i) = None \<and> Hash (infos e' ! i) = Some ''ZW1wdHk=''"
    by (auto simp: substituteEmptyHash_def emptyHash_value split: if_splits)
  assume "err = None"
  with ok fact show "Status (infos e ! i) = SveltosStatusProvisioned"
    by simp
  from \<open>err = None\<close> ok fact show "Hash (infos e' ! i) \<noteq> None"
    by (auto simp: substituteEmptyHash_def split: if_splits)
qed

theorem deployEventTrigger_other_shard_witness:
  "deployEventTriggerStep (exampleReconciler (resultFor Unavailable None)) exampleFeature 0
     \<lparr>resource = exampleTrigger [exampleCluster ''peer'' ''d'']
                   [exampleInfo (exampleCluster ''peer'' ''d'') None SveltosStatusProvisioning],
      errorSeen = None, allProcessed = True, world = exampleStart (exampleTrigger [] [])\<rparr>
   = Returned (None,
     \<lparr>resource = exampleTrigger [exampleCluster ''peer'' ''d'']
                   [exampleInfo (exampleCluster ''peer'' ''d'') (Some ''ZW1wdHk='') SveltosStatusProvisioning],
      errorSeen = None, allProcessed = False, world = exampleStart (exampleTrigger [] [])\<rparr>)
   \<and> deployEventTrigger (exampleReconciler (resultFor Unavailable None))
       (exampleTrigger [exampleCluster ''peer'' ''d'']
          [exampleInfo (exampleCluster ''peer'' ''d'') None SveltosStatusProvisioning])
       exampleFeature (exampleStart (exampleTrigger [] []))
     = Returned (Some (Error ''request to process EventTrigger is still queued in one ore more clusters''),
         exampleTrigger [exampleCluster ''peer'' ''d'']
           [exampleInfo (exampleCluster ''peer'' ''d'') (Some ''ZW1wdHk='') SveltosStatusProvisioning],
         exampleStart (exampleTrigger [] []))"
proof -
  let ?r = "exampleReconciler (resultFor Unavailable None)"
  let ?e = "exampleTrigger [exampleCluster ''peer'' ''d'']
              [exampleInfo (exampleCluster ''peer'' ''d'') None SveltosStatusProvisioning]"
  let ?st = "\<lparr>resource = ?e, errorSeen = None, allProcessed = True,
              world = exampleStart (exampleTrigger [] [])\<rparr>"
  have range: "0 < length (infos (resource ?st))" by (simp add: example_defs)
  have other: "isClusterAShardMatch ?r (infos (resource ?st) ! 0) = Inr False"
    by (simp add: isClusterAShardMatch_def example_defs)
  have step: "deployEventTriggerStep ?r exampleFeature 0 ?st =
     Returned (None,
     \<lparr>resource = exampleTrigger [exampleCluster ''peer'' ''d'']
                   [exampleInfo (exampleCluster ''peer'' ''d'') (Some ''ZW1wdHk='') SveltosStatusProvisioning],
      errorSeen = None, allProcessed = False, world = exampleStart (exampleTrigger [] [])\<rparr>)"
    using deployEventTrigger_other_shard [OF range other, of exampleFeature ?e, THEN conjunct1]
    by (simp add: setClusterInfoAt_def example_defs)
  then show ?thesis
    by (simp add: deployEventTrigger_def example_defs upt_conv_Cons)
qed

lemma attempt_no_match:
  assumes "GetEventTrigger r (TriggerName e) w = Inr cur"
      and "firstClusterInfoIndex r (infos cur) ns n t 0 = None"
  shows "removeClusterInfoEntryAttempt r ns n t e w = Returned (None, w)"
  using assms by (simp add: removeClusterInfoEntryAttempt_def)

lemma attempt_match:
  assumes "GetEventTrigger r (TriggerName e) w = Inr cur"
      and "firstClusterInfoIndex r (infos cur) ns n t 0 = Some i"
  shows "removeClusterInfoEntryAttempt r ns n t e w =
           Returned (StatusUpdate r
             (withClusterInfo cur (butlast ((infos cur)[i := last (infos cur)]))) w)"
proof -
  from firstClusterInfoIndex_Some [OF assms(2)] have "i < length (infos cur)" by simp
  with assms show ?thesis
    by (simp add: removeClusterInfoEntryAttempt_def remove_def withClusterInfo_def Let_def)
qed

text \<open>
  C10. Let \<open>cur\<close> be the stored EventTrigger, on an API server where a rejected status
  update changes nothing and an accepted one is what the next read returns. When no entry
  of \<open>cur\<close> is for the cluster, \<open>removeClusterInfoEntry\<close> returns nil and issues no
  update. Otherwise each attempt updates the status with the list in which the first
  entry for the cluster is overwritten by the last one and the last slot dropped: that
  list holds every other entry, as often as before. In the end the stored status is
  that list when nil is returned, and still the one of \<open>cur\<close> when an error is.
\<close>

theorem removeClusterInfoEntry_first_match:
  assumes get: "GetEventTrigger r (TriggerName e) w = Inr cur"
      and rejected: "\<And>e0 w0 err w1. StatusUpdate r e0 w0 = (Some err, w1) \<Longrightarrow>
                       GetEventTrigger r (TriggerName e) w1 = GetEventTrigger r (TriggerName e) w0"
      and accepted: "\<And>e0 w0 w1. TriggerName e0 = TriggerName cur \<Longrightarrow>
                       StatusUpdate r e0 w0 = (None, w1) \<Longrightarrow>
                       GetEventTrigger r (TriggerName e) w1 = Inr e0"
  shows "(case firstClusterInfoIndex r (infos cur) ns n t 0 of
            None \<Rightarrow>
              (\<forall>c\<in>set (infos cur). \<not> isClusterInfoForCluster r c ns n t) \<and>
              removeClusterInfoEntry r ns n t e w = Returned (None, w)
          | Some i \<Rightarrow>
              i < length (infos cur) \<and>
              isClusterInfoForCluster r (infos cur ! i) ns n t \<and>
              (\<forall>j<i. \<not> isClusterInfoForCluster r (infos cur ! j) ns n t) \<and>
              mset (butlast ((infos cur)[i := last (infos cur)])) = mset (infos cur) - {#infos cur ! i#} \<and>
              removeClusterInfoEntryAttempt r ns n t e w =
                Returned (StatusUpdate r
                  (withClusterInfo cur (butlast ((infos cur)[i := last (infos cur)]))) w) \<and>
              (\<exists>res w'. removeClusterInfoEntry r ns n t e w = Returned (res, w') \<and>
                 (if res = None
                  then GetEventTrigger r (TriggerName e) w' =
                         Inr (withClusterInfo cur (butlast ((infos cur)[i := last (infos cur)])))
                  else GetEventTrigger r (TriggerName e) w' = Inr cur)))"
proof (cases "firstClusterInfoIndex r (infos cur) ns n t 0")
  case None
  then have "\<forall>c\<in>set (infos cur). \<not> isClusterInfoForCluster r c ns n t"
    by (simp add: firstClusterInfoIndex_None)
  moreover have "removeClusterInfoEntry r ns n t e w = Returned (None, w)"
    using attempt_no_match [OF get None]
    by (simp add: removeClusterInfoEntry_def DefaultRetrySteps_def eval_nat_numeral)
  ultimately show ?thesis using None by simp
next
  case (Some i)
  let ?cur' = "withClusterInfo cur (butlast ((infos cur)[i := last (infos cur)]))"
  let ?P = "\<lambda>w0. GetEventTrigger r (TriggerName e) w0 = Inr cur"
  let ?Q = "\<lambda>w0. GetEventTrigger r (TriggerName e) w0 = Inr ?cur'"
  let ?fn = "removeClusterInfoEntryAttempt r ns n t e"
  from firstClusterInfoIndex_Some [OF Some] have
    range: "i < length (infos cur)" and
    hit: "isClusterInfoForCluster r (infos cur ! i) ns n t" and
    first: "\<forall>j<i. \<not> isClusterInfoForCluster r (infos cur ! j) ns n t"
    by simp_all
  have at: "\<And>w0. ?P w0 \<Longrightarrow> ?fn w0 = Returned (StatusUpdate r ?cur' w0)"
    using Some by (rule attempt_match [rotated])
  have step: "\<And>w0 res w1. ?P w0 \<Longrightarrow> ?fn w0 = Returned (res, w1) \<Longrightarrow>
                (res = None \<and> ?Q w1) \<or> (res \<noteq> None \<and> ?P w1)"
  proof -
    fix w0 res w1 assume p: "?P w0" and f: "?fn w0 = Returned (res, w1)"
    from at [OF p] f have u: "StatusUpdate r ?cur' w0 = (res, w1)" by simp
    show "(res = None \<and> ?Q w1) \<or> (res \<noteq> None \<and> ?P w1)"
    proof (cases res)
      case None
      with u accepted [of ?cur' w0 w1] show ?thesis by (simp add: withClusterInfo_def)
    next
      case (Some err)
      with u rejected [of ?cur' w0 err w1] p show ?thesis by simp
    qed
  qed
  have nopanic: "\<And>w0. ?P w0 \<Longrightarrow> ?fn w0 \<noteq> Panicked"
    using at by simp
  have pos: "0 < DefaultRetrySteps" by (simp add: DefaultRetrySteps_def)
  have "\<exists>res w'. RetryOnConflict DefaultRetrySteps ?fn w = Returned (res, w') \<and>
           ((res = None \<and> ?Q w') \<or> (res \<noteq> None \<and> ?P w'))"
    using step nopanic get pos by (rule RetryOnConflict_invariant)
  then have whole: "\<exists>res w'. removeClusterInfoEntry r ns n t e w = Returned (res, w') \<and>
      (if res = None then ?Q w' else ?P w')"
    by (auto simp: removeClusterInfoEntry_def)
  from range hit first mset_swap_remove [OF range] at [OF get] whole Some
  show ?thesis by simp
qed

theorem removeClusterInfoEntry_first_match_witness:
  "removeClusterInfoEntry (exampleReconciler (resultFor Removed None))
     ''default'' ''c1'' ClusterTypeSveltos (exampleTrigger [] [])
     \<lparr>queued = [],
      storedTrigger = exampleTrigger []
        [exampleInfo (exampleCluster ''default'' ''c0'') None SveltosStatusProvisioned,
         exampleInfo (exampleCluster ''default'' ''c1'') None SveltosStatusRemoving,
         exampleInfo (exampleCluster ''default'' ''c2'') None SveltosStatusProvisioned,
         exampleInfo (exampleCluster ''default'' ''c1'') None SveltosStatusFailed],
      pendingConflicts = 2\<rparr>
   = Returned (None,
     \<lparr>queued = [],
      storedTrigger = exampleTrigger []
        [exampleInfo (exampleCluster ''default'' ''c0'') None SveltosStatusProvisioned,
         exampleInfo (exampleCluster ''default'' ''c1'') None SveltosStatusFailed,
         exampleInfo (exampleCluster ''default'' ''c2'') None SveltosStatusProvisioned],
      pendingConflicts = 0\<rparr>)
   \<and> firstClusterInfoIndex (exampleReconciler (resultFor Removed None))
        [exampleInfo (exampleCluster ''default'' ''c0'') None SveltosStatusProvisioned,
         exampleInfo (exampleCluster ''default'' ''c1'') None SveltosStatusRemoving,
         exampleInfo (exampleCluster ''default'' ''c2'') None SveltosStatusProvisioned,
         exampleInfo (exampleCluster ''default'' ''c1'') None SveltosStatusFailed]
        ''default'' ''c1'' ClusterTypeSveltos 0 = Some 1"
proof -
  let ?r = "exampleReconciler (resultFor Removed None)"
  let ?xs = "[exampleInfo (exampleCluster ''default'' ''c0'') None SveltosStatusProvisioned,
         exampleInfo (exampleCluster ''default'' ''c1'') None SveltosStatusRemoving,
         exampleInfo (exampleCluster ''default'' ''c2'') None SveltosStatusProvisioned,
         exampleInfo (exampleCluster ''default'' ''c1'') None SveltosStatusFailed]"
  let ?w = "\<lparr>queued = [], storedTrigger = exampleTrigger [] ?xs, pendingConflicts = 2\<rparr>"
  have get: "GetEventTrigger ?r (TriggerName (exampleTrigger [] [])) ?w = Inr (exampleTrigger [] ?xs)"
    by (simp add: example_defs)
  have rejected: "\<And>e0 w0 err w1. StatusUpdate ?r e0 w0 = (Some err, w1) \<Longrightarrow>
      GetEventTrigger ?r (TriggerName (exampleTrigger [] [])) w1 =
      GetEventTrigger ?r (TriggerName (exampleTrigger [] [])) w0"
    by (auto simp: example_defs split: if_splits)
  have accepted: "\<And>e0 w0 w1. TriggerName e0 = TriggerName (exampleTrigger [] ?xs) \<Longrightarrow>
      StatusUpdate ?r e0 w0 = (None, w1) \<Longrightarrow>
      GetEventTrigger ?r (TriggerName (exampleTrigger [] [])) w1 = Inr e0"
    by (auto simp: example_defs split: if_splits)
  have first: "firstClusterInfoIndex ?r (infos (exampleTrigger [] ?xs)) ''default'' ''c1'' ClusterTypeSveltos 0 = Some 1"
    by (simp add: example_defs isClusterInfoForCluster_def)
  have run: "removeClusterInfoEntry ?r ''default'' ''c1'' ClusterTypeSveltos (exampleTrigger [] []) ?w
     = Returned (None,
     \<lparr>queued = [],
      storedTrigger = exampleTrigger []
        [exampleInfo (exampleCluster ''default'' ''c0'') None SveltosStatusProvisioned,
         exampleInfo (exampleCluster ''default'' ''c1'') None SveltosStatusFailed,
         exampleInfo (exampleCluster ''default'' ''c2'') None SveltosStatusProvisioned],
      pendingConflicts = 0\<rparr>)"
    by (simp add: removeClusterInfoEntry_def DefaultRetrySteps_def eval_nat_numeral
                  removeClusterInfoEntryAttempt_def remove_def Let_def
                  isClusterInfoForCluster_def example_defs)
  from removeClusterInfoEntry_first_match
         [of ?r "exampleTrigger [] []" ?w "exampleTrigger [] ?xs" "''default''" "''c1''" ClusterTypeSveltos,
          OF get rejected accepted]
       first run
  show ?thesis by (simp add: example_defs)
qed

subsection \<open>The claim about the matchers\<close>

lemma selects_ClusterLabels [simp]:
  "selects (r\<lparr>ClusterLabels := x\<rparr>) ls = selects r ls"
  by (rule ext) (simp add: selects_def split: option.splits)

lemma appendMatching_result:
  "appendMatchingEventTriggers r ls ts requests = Returned out \<Longrightarrow>
     out = requests @ map (\<lambda>t. requestByName (fst t)) (filter (selects r ls) ts)"
proof (induction ts arbitrary: requests)
  case Nil
  then show ?case by simp
next
  case (Cons t rest)
  obtain k sel where t: "t = (k, sel)" by (cases t)
  from Cons.prems t obtain p where p: "labelsParse r sel = Some p"
    by (auto split: option.splits)
  show ?case
  proof (cases "Matches r p ls")
    case True
    with Cons.prems t p have
      "appendMatchingEventTriggers r ls rest (requests @ [requestByName k]) = Returned out"
      by (simp add: requestByName_def)
    from Cons.IH [OF this] True t p show ?thesis by (simp add: selects_def)
  next
    case False
    with Cons.prems t p have "appendMatchingEventTriggers r ls rest requests = Returned out"
      by simp
    from Cons.IH [OF this] False t p show ?thesis by (simp add: selects_def)
  qed
qed

lemma distinct_requestByName:
  "distinct (map Name xs) \<Longrightarrow> distinct (map requestByName xs)"
  by (induction xs) (auto simp: requestByName_def)

lemma distinct_filter_names:
  "distinct (map (\<lambda>t. Name (fst t)) ts) \<Longrightarrow>
   distinct (map (\<lambda>t. requestByName (fst t)) (filter P ts))"
  by (induction ts) (auto simp: requestByName_def)

text \<open>
  C9 (as amended). The matchers for EventReports, EventSources and referenced resources
  return exactly one request per item of the index set, in the order of the items: for an
  EventReport or an EventSource the request carries the name of the item and an empty
  namespace, for a referenced resource the namespace and the name of the item. So no
  EventTrigger is returned twice (the items of a set naming pairwise different
  EventTriggers). The cluster matcher returns the requests for the EventTriggers that
  tracked the cluster, followed by one request for every EventTrigger whose selector
  matches the labels of the cluster: each of the two parts is free of duplicates, and the
  two are concatenated as they are.
\<close>

theorem matchers_return_index_items:
  assumes "distinct (map Name (getEventSourceMapForEntry r (eventSourceInfo (erEventSourceName (erSpec er)))))"
      and "distinct (map Name (getEventSourceMapForEntry r (eventSourceInfo (esName es))))"
      and "distinct (map (\<lambda>c. (Namespace c, Name c)) (getReferenceMapForEntry r (referencedKey obj)))"
      and "distinct (map Name (getClusterMapForEntry r
              \<lparr>Kind = coKind cluster, Namespace = coNamespace cluster, Name = coName cluster,
               UID = [], APIVersion = coAPIVersion cluster, ResourceVersion = [], FieldPath = []\<rparr>))"
      and "distinct (map (\<lambda>t. Name (fst t)) (EventTriggers r))"
      and "fst (requeueEventTriggerForCluster r cluster) = Returned requests"
  shows "requeueEventTriggerForEventReport r er =
           map (\<lambda>item. \<lparr>reqNamespace = [], reqName = Name item\<rparr>)
             (getEventSourceMapForEntry r (eventSourceInfo (erEventSourceName (erSpec er)))) \<and>
         distinct (requeueEventTriggerForEventReport r er) \<and>
         requeueEventTriggerForEventSource r es =
           map (\<lambda>item. \<lparr>reqNamespace = [], reqName = Name item\<rparr>)
             (getEventSourceMapForEntry r (eventSourceInfo (esName es))) \<and>
         distinct (requeueEventTriggerForEventSource r es) \<and>
         requeueEventTriggerForReference r obj =
           map (\<lambda>item. \<lparr>reqNamespace = Namespace item, reqName = Name item\<rparr>)
             (getReferenceMapForEntry r (referencedKey obj)) \<and>
         distinct (requeueEventTriggerForReference r obj) \<and>
         (\<exists>previous matching.
            requests = previous @ matching \<and> distinct previous \<and> distinct matching \<and>
            previous = map (\<lambda>item. \<lparr>reqNamespace = [], reqName = Name item\<rparr>)
              (getClusterMapForEntry r
                 \<lparr>Kind = coKind cluster, Namespace = coNamespace cluster, Name = coName cluster,
                  UID = [], APIVersion = coAPIVersion cluster, ResourceVersion = [], FieldPath = []\<rparr>) \<and>
            matching = map (\<lambda>t. \<lparr>reqNamespace = [], reqName = Name (fst t)\<rparr>)
              (filter (selects r (coLabels cluster)) (EventTriggers r)))"
proof (intro conjI)
  have byName: "requestByName = (\<lambda>item. \<lparr>reqNamespace = [], reqName = Name item\<rparr>)"
    by (rule ext) (simp add: requestByName_def)
  show "requeueEventTriggerForEventReport r er =
           map (\<lambda>item. \<lparr>reqNamespace = [], reqName = Name item\<rparr>)
             (getEventSourceMapForEntry r (eventSourceInfo (erEventSourceName (erSpec er))))"
    by (simp add: requeueEventTriggerForEventReport_def byName)
  show "distinct (requeueEventTriggerForEventReport r er)"
    using assms(1) by (simp add: requeueEventTriggerForEventReport_def distinct_requestByName)
  show "requeueEventTriggerForEventSource r es =
           map (\<lambda>item. \<lparr>reqNamespace = [], reqName = Name item\<rparr>)
             (getEventSourceMapForEntry r (eventSourceInfo (esName es)))"
    by (simp add: requeueEventTriggerForEventSource_def byName)
  show "distinct (requeueEventTriggerForEventSource r es)"
    using assms(2) by (simp add: requeueEventTriggerForEventSource_def distinct_requestByName)
  show "requeueEventTriggerForReference r obj =
           map (\<lambda>item. \<lparr>reqNamespace = Namespace item, reqName = Name item\<rparr>)
             (getReferenceMapForEntry r (referencedKey obj))"
    by (simp add: requeueEventTriggerForReference_def)
  have "inj_on (\<lambda>consumer. \<lparr>reqNamespace = Namespace consumer, reqName = Name consumer\<rparr>)
          (set (getReferenceMapForEntry r (referencedKey obj)))"
    using assms(3) by (auto simp: inj_on_def distinct_map)
  with assms(3) show "distinct (requeueEventTriggerForReference r obj)"
    by (auto simp: requeueEventTriggerForReference_def distinct_map)
  let ?ci = "\<lparr>Kind = coKind cluster, Namespace = coNamespace cluster, Name = coName cluster,
               UID = [], APIVersion = coAPIVersion cluster, ResourceVersion = [], FieldPath = []\<rparr>"
  let ?previous = "map requestByName (getClusterMapForEntry r ?ci)"
  let ?matching = "map (\<lambda>t. requestByName (fst t))
              (filter (selects r (coLabels cluster)) (EventTriggers r))"
  from assms(6) have
    "appendMatchingEventTriggers (r\<lparr>ClusterLabels := (ClusterLabels r)(?ci \<mapsto> coLabels cluster)\<rparr>)
       (coLabels cluster) (EventTriggers r) ?previous = Returned requests"
    by (simp add: requeueEventTriggerForCluster_def Let_def)
  from appendMatching_result [OF this] have "requests = ?previous @ ?matching"
    by simp
  moreover have "distinct ?previous" using assms(4) by (rule distinct_requestByName)
  moreover have "distinct ?matching" using assms(5) by (rule distinct_filter_names)
  ultimately have "\<exists>previous matching.
            requests = previous @ matching \<and> distinct previous \<and> distinct matching \<and>
            previous = ?previous \<and> matching = ?matching"
    by blast
  then show "\<exists>previous matching.
            requests = previous @ matching \<and> distinct previous \<and> distinct matching \<and>
            previous = map (\<lambda>item. \<lparr>reqNamespace = [], reqName = Name item\<rparr>)
              (getClusterMapForEntry r ?ci) \<and>
            matching = map (\<lambda>t. \<lparr>reqNamespace = [], reqName = Name (fst t)\<rparr>)
              (filter (selects r (coLabels cluster)) (EventTriggers r))"
    by (simp add: byName)
qed

text \<open>
  An EventTrigger that tracked the cluster and whose selector matches its labels is
  returned twice.
\<close>

theorem requeueEventTriggerForCluster_duplicate_counterexample:
  "fst (requeueEventTriggerForCluster exampleIndex exampleClusterObject) =
     Returned [\<lparr>reqNamespace = [], reqName = ''t1''\<rparr>, \<lparr>reqNamespace = [], reqName = ''t1''\<rparr>]"
  by (simp add: requeueEventTriggerForCluster_def exampleIndex_def exampleClusterObject_def
                exampleEventTriggerRef_def requestByName_def Let_def)

theorem matchers_return_index_items_witness:
  "requeueEventTriggerForEventReport exampleIndex
     \<lparr>erNamespace = ''default'', erName = ''er'', erLabels = Map.empty, erDeleting = False,
      erSpec = \<lparr>erClusterNamespace = ''default'', erClusterName = ''c1'',
                erClusterType = ClusterTypeSveltos, erEventSourceName = ''es'',
                MatchingResources = [], Resources = []\<rparr>\<rparr> =
     [\<lparr>reqNamespace = [], reqName = ''t1''\<rparr>, \<lparr>reqNamespace = [], reqName = ''t2''\<rparr>] \<and>
   requeueEventTriggerForEventSource exampleIndex
     \<lparr>esName = ''es'', esOwnerReferences = [],
      esSpec = \<lparr>CollectResources = False, ResourceSelectors = []\<rparr>\<rparr> =
     [\<lparr>reqNamespace = [], reqName = ''t1''\<rparr>, \<lparr>reqNamespace = [], reqName = ''t2''\<rparr>] \<and>
   requeueEventTriggerForReference exampleIndex (ChangedConfigMap ''default'' ''cm'') =
     [\<lparr>reqNamespace = [], reqName = ''t2''\<rparr>] \<and>
   fst (requeueEventTriggerForCluster exampleIndex exampleClusterObject) =
     Returned ([\<lparr>reqNamespace = [], reqName = ''t1''\<rparr>] @ [\<lparr>reqNamespace = [], reqName = ''t1''\<rparr>])"
proof -
  let ?er = "\<lparr>erNamespace = ''default'', erName = ''er'', erLabels = Map.empty, erDeleting = False,
      erSpec = \<lparr>erClusterNamespace = ''default'', erClusterName = ''c1'',
                erClusterType = ClusterTypeSveltos, erEventSourceName = ''es'',
                MatchingResources = [], Resources = []\<rparr>\<rparr>"
  let ?es = "\<lparr>esName = ''es'', esOwnerReferences = [],
      esSpec = \<lparr>CollectResources = False, ResourceSelectors = []\<rparr>\<rparr>"
  have run: "fst (requeueEventTriggerForCluster exampleIndex exampleClusterObject) =
     Returned [\<lparr>reqNamespace = [], reqName = ''t1''\<rparr>, \<lparr>reqNamespace = [], reqName = ''t1''\<rparr>]"
    by (simp add: requeueEventTriggerForCluster_def exampleIndex_def exampleClusterObject_def
                  exampleEventTriggerRef_def requestByName_def Let_def)
  from matchers_return_index_items
         [of exampleIndex ?er ?es "ChangedConfigMap ''default'' ''cm''" exampleClusterObject, OF _ _ _ _ _ run]
  have "requeueEventTriggerForEventReport exampleIndex ?er =
          [\<lparr>reqNamespace = [], reqName = ''t1''\<rparr>, \<lparr>reqNamespace = [], reqName = ''t2''\<rparr>] \<and>
        requeueEventTriggerForEventSource exampleIndex ?es =
          [\<lparr>reqNamespace = [], reqName = ''t1''\<rparr>, \<lparr>reqNamespace = [], reqName = ''t2''\<rparr>] \<and>
        requeueEventTriggerForReference exampleIndex (ChangedConfigMap ''default'' ''cm'') =
          [\<lparr>reqNamespace = [], reqName = ''t2''\<rparr>]"
    by (simp add: exampleIndex_def exampleEventTriggerRef_def)
  with run show ?thesis by simp
qed

subsection \<open>The claim about names of derived objects\<close>

text \<open>
  C5. With no object, \<open>getInstantiatedObjectName\<close> returns \<open>sveltos-\<close> followed by the
  string \<open>RandomString\<close> gives for length 20 (which has 20 characters when
  \<open>RandomString\<close> returns strings of the length asked for) and \<open>create = true\<close>;
  with one object, its name and \<open>create = false\<close>; with two or more, the error
  \<open>more than one resource\<close>, an empty name and \<open>create = false\<close>.
\<close>

theorem getInstantiatedObjectName_cases:
  assumes "\<And>n g. length (fst (RandomString n g)) = n"
  shows "(objects = [] \<longrightarrow>
            getInstantiatedObjectName RandomString GetName objects g =
              ((''sveltos-'' @ fst (RandomString 20 g), True, None), snd (RandomString 20 g)) \<and>
            length (fst (RandomString 20 g)) = 20) \<and>
         (\<forall>obj. objects = [obj] \<longrightarrow>
            getInstantiatedObjectName RandomString GetName objects g = ((GetName obj, False, None), g)) \<and>
         (2 \<le> length objects \<longrightarrow>
            getInstantiatedObjectName RandomString GetName objects g =
              (([], False, Some (Error ''more than one resource'')), g))"
proof (intro conjI impI allI)
  assume "objects = []"
  then show "getInstantiatedObjectName RandomString GetName objects g =
              ((''sveltos-'' @ fst (RandomString 20 g), True, None), snd (RandomString 20 g))"
    by (simp add: getInstantiatedObjectName_def split: prod.splits)
  show "length (fst (RandomString 20 g)) = 20" by (rule assms)
next
  fix obj assume "objects = [obj]"
  then show "getInstantiatedObjectName RandomString GetName objects g = ((GetName obj, False, None), g)"
    by (simp add: getInstantiatedObjectName_def)
next
  assume "2 \<le> length objects"
  then obtain a b rest where "objects = a # b # rest"
    by (cases objects; cases "tl objects") auto
  then show "getInstantiatedObjectName RandomString GetName objects g =
              (([], False, Some (Error ''more than one resource'')), g)"
    by (simp add: getInstantiatedObjectName_def)
qed

theorem getInstantiatedObjectName_cases_witness:
  "getInstantiatedObjectName exampleRandomString cpName [] (7::nat) =
     ((''sveltos-xxxxxxxxxxxxxxxxxxxx'', True, None), 8) \<and>
   getInstantiatedObjectName exampleRandomString cpName [exampleProfile ''sveltos-abc'' []] (7::nat) =
     ((''sveltos-abc'', False, None), 7) \<and>
   getInstantiatedObjectName exampleRandomString cpName
     [exampleProfile ''sveltos-abc'' [], exampleProfile ''sveltos-def'' []] (7::nat) =
     (([], False, Some (Error ''more than one resource'')), 7)"
proof -
  have len: "\<And>n g. length (fst (exampleRandomString n g)) = n"
    by (simp add: exampleRandomString_def)
  have twenty: "fst (exampleRandomString 20 7) = ''xxxxxxxxxxxxxxxxxxxx''"
               "snd (exampleRandomString 20 7) = 8"
    by (simp_all add: exampleRandomString_def eval_nat_numeral)
  from getInstantiatedObjectName_cases [of exampleRandomString "[]" cpName 7, OF len] twenty
  have a: "getInstantiatedObjectName exampleRandomString cpName [] (7::nat) =
     ((''sveltos-xxxxxxxxxxxxxxxxxxxx'', True, None), 8)" by simp
  from getInstantiatedObjectName_cases
         [of exampleRandomString "[exampleProfile ''sveltos-abc'' []]" cpName 7, OF len]
  have b: "getInstantiatedObjectName exampleRandomString cpName [exampleProfile ''sveltos-abc'' []] (7::nat) =
     ((''sveltos-abc'', False, None), 7)" by (simp add: exampleProfile_def)
  from getInstantiatedObjectName_cases
         [of exampleRandomString "[exampleProfile ''sveltos-abc'' [], exampleProfile ''sveltos-def'' []]" cpName 7, OF len]
  have c: "getInstantiatedObjectName exampleRandomString cpName
     [exampleProfile ''sveltos-abc'' [], exampleProfile ''sveltos-def'' []] (7::nat) =
     (([], False, Some (Error ''more than one resource'')), 7)" by simp
  from a b c show ?thesis by simp
qed

subsection \<open>The claim about the remote EventSource cleanup\<close>

text \<open>
  C4. The claim asks that a failure while deleting the EventReports of an EventSource
  about to be deleted is reported by the cleanup. On a managed cluster with an
  EventSource owned by this trigger alone and one it shares, with \<open>removeAll\<close> set and
  the listing of EventReports failing, \<open>removeStaleEventSources\<close> returns nil; the first
  EventSource is not deleted and the second still names the trigger as an owner.
\<close>

theorem removeStaleEventSources_swallows_report_error:
  "removeStaleEventSources (exampleAccess True) ''default'' ''c1'' ClusterTypeSveltos
     (exampleTrigger [] []) True
     \<lparr>remoteEventSources = [exampleEventSource ''old'' [''trigger''],
                             exampleEventSource ''other'' [''trigger'', ''t2'']],
      eventReports = [exampleEventReport ''r1'' ''old'']\<rparr>
   = (None,
      \<lparr>remoteEventSources = [exampleEventSource ''old'' [''trigger''],
                              exampleEventSource ''other'' [''trigger'', ''t2'']],
       eventReports = [exampleEventReport ''r1'' ''old'']\<rparr>)"
  by (simp add: removeStaleEventSources_def removeStaleEventReports_def exampleAccess_def
                exampleEventSource_def exampleTrigger_def Let_def)

subsection \<open>The claim about the expansion set\<close>












































subsection \<open>The claim about the fingerprint\<close>

lemma assignAll_map_of:
  "assignAll kvs m = m ++ map_of (rev kvs)"
proof (induction kvs m rule: assignAll.induct)
  case (1 m)
  show ?case by simp
next
  case (2 k v rest m)
  have a: "map_of (rev ((k, v) # rest)) = [k \<mapsto> v] ++ map_of (rev rest)"
    by (simp only: rev.simps map_of_append map_of.simps fst_conv snd_conv)
  have b: "m(k \<mapsto> v) = m ++ [k \<mapsto> v]"
    by (simp only: map_add_upd map_add_empty)
  have "assignAll ((k, v) # rest) m = m(k \<mapsto> v) ++ map_of (rev rest)"
    using "2.IH" by (simp only: assignAll.simps)
  also have "\<dots> = m ++ ([k \<mapsto> v] ++ map_of (rev rest))"
    by (simp only: b map_add_assoc)
  finally show ?case by (simp only: a)
qed

lemma goMap_map_of: "goMap kvs = map_of (rev kvs)"
  by (simp add: goMap_def assignAll_map_of)

lemma goMap_order:
  assumes "distinct (map fst kvs)" and "mset kvs' = mset kvs"
  shows "goMap kvs' = goMap kvs"
proof -
  from assms(2) have s: "set kvs' = set kvs" by (rule mset_eq_setD)
  from assms(2) have "mset (map fst kvs') = mset (map fst kvs)" by simp
  from mset_eq_imp_distinct_iff [OF this] assms(1) have d: "distinct (map fst kvs')" by simp
  have "map_of (rev kvs') = map_of (rev kvs)"
  proof (rule map_of_inject_set [THEN iffD2])
    show "distinct (map fst (rev kvs'))" using d by (simp add: rev_map [symmetric])
    show "distinct (map fst (rev kvs))" using assms(1) by (simp add: rev_map [symmetric])
    show "set (rev kvs') = set (rev kvs)" using s by simp
  qed
  then show ?thesis by (simp add: goMap_map_of)
qed



lemma renderResources_step:
  assumes "sameBody x y" and "\<And>config. renderResources r xs config = renderResources r ys config"
  shows "renderResources r (x # xs) config = renderResources r (y # ys) config"
proof (cases x)
  case (ConfigMapObject a)
  with assms(1) obtain b where "y = ConfigMapObject b" "cmData a = cmData b" by (cases y) simp_all
  with ConfigMapObject assms(2) show ?thesis by (simp only: renderResources.simps)
next
  case (SecretObject a)
  with assms(1) obtain b where "y = SecretObject b" "secData a = secData b" by (cases y) simp_all
  with SecretObject assms(2) show ?thesis by (simp only: renderResources.simps)
next
  case (EventSourceObject a)
  with assms(1) obtain b where "y = EventSourceObject b" "esSpec a = esSpec b" by (cases y) simp_all
  with EventSourceObject assms(2) show ?thesis by (simp only: renderResources.simps)
next
  case (EventReportObject a)
  with assms(1) obtain b where "y = EventReportObject b" "erSpec a = erSpec b" by (cases y) simp_all
  with EventReportObject assms(2) show ?thesis by (simp only: renderResources.simps)
next
  case (OtherObject a)
  with assms(1) obtain b where "y = OtherObject b" by (cases y) simp_all
  with OtherObject show ?thesis by (simp only: renderResources.simps)
qed

lemma renderResources_sameBody:
  "list_all2 sameBody rs1 rs2 \<Longrightarrow> renderResources r rs1 config = renderResources r rs2 config"
proof (induction rs1 arbitrary: rs2 config)
  case Nil
  then show ?case by simp
next
  case (Cons x xs)
  from Cons.prems obtain y ys where rs2: "rs2 = y # ys" and xy: "sameBody x y"
    and rest: "list_all2 sameBody xs ys"
    by (cases rs2) auto
  have "\<And>config. renderResources r xs config = renderResources r ys config"
    using Cons.IH [OF rest] .
  from renderResources_step [OF xy this] rs2 show ?case by simp
qed


text \<open>
  C8. Two computations of \<open>eventTriggerHash\<close> give the same digest when the specs are
  equal, the labels hold the same entries (in whatever order they were assigned), and the
  resources fetched have, in the same order, the same bodies. Names, status and other
  metadata of the trigger and of the fetched resources do not enter the digest.
\<close>

theorem eventTriggerHash_deterministic:
  assumes "Spec e1 = Spec e2"
      and "TriggerLabels e1 = goMap kvs" and "TriggerLabels e2 = goMap kvs'"
      and "distinct (map fst kvs)" and "mset kvs' = mset kvs"
      and "fetchReferencedResources r e1 c1 = Inr rs1"
      and "fetchReferencedResources r e2 c2 = Inr rs2"
      and "list_all2 sameBody rs1 rs2"
  shows "eventTriggerHash r e1 c1 = eventTriggerHash r e2 c2"
proof -
  have labels: "TriggerLabels e1 = TriggerLabels e2"
    using goMap_order [OF assms(4) assms(5)] assms(2) assms(3) by (simp only:)
  have "renderResources r rs1 (renderSpec r (Spec e1) @ renderStringMap r (TriggerLabels e1)) =
        renderResources r rs2 (renderSpec r (Spec e2) @ renderStringMap r (TriggerLabels e2))"
    using renderResources_sameBody [OF assms(8)] by (simp only: labels assms(1))
  then show ?thesis
    by (simp only: eventTriggerHash_def assms(6) assms(7) sum.case)
qed

theorem eventTriggerHash_deterministic_witness:
  "eventTriggerHash (exampleHashReconciler exampleFetched)
     (exampleLabelledTrigger ''t1'' (goMap [(''a'', ''1''), (''b'', ''2'')]) [])
     (exampleCluster ''default'' ''c1'')
   = Returned (Inr ''digest of es/tier:100a:1,b:2a:x,b:-Service'')
   \<and> eventTriggerHash (exampleHashReconciler exampleFetched)
       (exampleLabelledTrigger ''t2'' (goMap [(''b'', ''2''), (''a'', ''1'')])
          [exampleInfo (exampleCluster ''default'' ''c2'') None SveltosStatusFailed])
       (exampleCluster ''default'' ''c2'')
     = Returned (Inr ''digest of es/tier:100a:1,b:2a:x,b:-Service'')"
proof -
  let ?r = "exampleHashReconciler exampleFetched"
  let ?e1 = "exampleLabelledTrigger ''t1'' (goMap [(''a'', ''1''), (''b'', ''2'')]) []"
  let ?e2 = "exampleLabelledTrigger ''t2'' (goMap [(''b'', ''2''), (''a'', ''1'')])
          [exampleInfo (exampleCluster ''default'' ''c2'') None SveltosStatusFailed]"
  have spec: "Spec ?e1 = Spec ?e2"
    by (simp add: exampleLabelledTrigger_def exampleTrigger_def)
  have l1: "TriggerLabels ?e1 = goMap [(''a'', ''1''), (''b'', ''2'')]"
    by (simp add: exampleLabelledTrigger_def)
  have l2: "TriggerLabels ?e2 = goMap [(''b'', ''2''), (''a'', ''1'')]"
    by (simp add: exampleLabelledTrigger_def)
  have d: "distinct (map fst [(''a'', ''1''), (''b'', ''2'')])" by simp
  have p: "mset [(''b'', ''2''), (''a'', ''1'')] = mset [(''a'', ''1''), (''b'', ''2'')]" by simp
  have f1: "fetchReferencedResources ?r ?e1 (exampleCluster ''default'' ''c1'')
              = Inr (exampleFetched (exampleCluster ''default'' ''c1''))"
    by (simp add: exampleHashReconciler_def exampleReconciler_def)
  have f2: "fetchReferencedResources ?r ?e2 (exampleCluster ''default'' ''c2'')
              = Inr (exampleFetched (exampleCluster ''default'' ''c2''))"
    by (simp add: exampleHashReconciler_def exampleReconciler_def)
  have b: "list_all2 sameBody (exampleFetched (exampleCluster ''default'' ''c1''))
             (exampleFetched (exampleCluster ''default'' ''c2''))"
    by (simp add: exampleFetched_def)
  have first: "eventTriggerHash ?r ?e1 (exampleCluster ''default'' ''c1'')
                 = Returned (Inr ''digest of es/tier:100a:1,b:2a:x,b:-Service'')"
    by (simp add: eventTriggerHash_def exampleHashReconciler_def exampleReconciler_def
                  exampleFetched_def exampleLabelledTrigger_def exampleTrigger_def
                  exampleCluster_def exampleShow_def goMap_def)
  from eventTriggerHash_deterministic [OF spec l1 l2 d p f1 f2 b] first
  show ?thesis by (simp only: simp_thms)
qed

end
